theory Spec2Isabelle
  imports Main "HOL-Library.Word"
begin

section \<open>Tasqueue: the server runtime\<close>

text \<open>
  A shallow embedding of the server file of Tasqueue (package \<open>tasqueue\<close>): the task
  registry, \<open>NewServer\<close>, \<open>GetResult\<close>, the worker's \<open>process\<close> loop body,
  \<open>execJob\<close>, \<open>retryJob\<close> and the \<open>status*\<close> writers.

  Conventions.
  \<^item> A Go \<open>error\<close> is a \<open>string option\<close>: \<open>None\<close> is \<open>nil\<close>, \<open>Some e\<close> is an
    error whose \<open>Error()\<close> string is \<open>e\<close>. A pair \<open>(value, error)\<close> with a nil value
    on the error path is a sum, \<open>Inl e\<close> being the error.
  \<^item> A nil interface or pointer is \<open>None\<close>.
  \<^item> \<open>[]byte\<close> is a list of 8-bit words; \<open>uint32\<close> is a 32-bit word, so \<open>+\<close> wraps.
  \<^item> The broker and the results store are Go interfaces: records of their methods,
    each a transformer of a backend state \<open>'b\<close> about which nothing is assumed.
  \<^item> Every call the server makes to a collaborator is appended to a log (\<open>calls\<close>),
    which is how the order of writes is stated.
  \<^item> Logging and tracing spans are observability only: they touch neither the registry,
    the broker nor the results store, and are left out. So is the \<open>sync.RWMutex\<close>.
\<close>

subsection \<open>Data model\<close>

type_synonym bytes = "8 word list"

text \<open>Timestamps (\<open>time.Time\<close>) are opaque; a natural number stands for one.\<close>

type_synonym time = nat

text \<open>
  Modelled from the spec: the declarations of \<open>Job\<close>, \<open>JobOpts\<close>, \<open>Meta\<close>,
  \<open>JobMessage\<close> and \<open>JobCtx\<close> are not in the server file, which only uses their
  fields. The fields below are the ones the spec's data model lists; the server file uses
  \<open>msg.Meta\<close> next to \<open>msg.Retried\<close>, \<open>msg.PrevErr\<close>, ..., so \<open>Meta\<close> is embedded in
  \<open>JobMessage\<close> (a record extension here). The counters are unsigned 32-bit, like
  \<open>TaskOpts.Concurrency\<close>.
\<close>

record JobOpts =
  jo_Queue :: string
  jo_MaxRetries :: "32 word"
  jo_Schedule :: string

datatype Job = MkJob (Task: string) (Payload: bytes) (Opts: JobOpts) (OnSuccess: "Job option")

record Meta =
  UUID :: string
  OnSuccessUUID :: string
  Status :: string
  Queue :: string
  MaxRetry :: "32 word"
  Retried :: "32 word"
  PrevErr :: string
  ProcessedAt :: time
  PrevJobResults :: "bytes list"

record JobMessage = Meta +
  Job :: Job

definition StatusStarted :: string where "StatusStarted = ''queued''"
definition StatusProcessing :: string where "StatusProcessing = ''processing''"
definition StatusFailed :: string where "StatusFailed = ''failed''"
definition StatusDone :: string where "StatusDone = ''successful''"
definition StatusRetrying :: string where "StatusRetrying = ''retrying''"

definition defaultConcurrency :: "32 word" where "defaultConcurrency = 1"

text \<open>
  Modelled from the spec: the constant \<open>DefaultQueue\<close> is declared outside the server
  file; the spec gives its value as \<open>tasqueue:tasks\<close>.
\<close>

definition DefaultQueue :: string where "DefaultQueue = ''tasqueue:tasks''"

subsection \<open>Collaborators\<close>

text \<open>
  Modelled from the spec: the \<open>Broker\<close> and \<open>Results\<close> interfaces are declared outside
  the server file; their methods are those of the spec's external interfaces. The
  blocking \<open>Consume\<close> is not modelled.
\<close>

record 'b Broker =
  Enqueue :: "bytes \<Rightarrow> string \<Rightarrow> 'b \<Rightarrow> string option \<times> 'b"

record 'b Results =
  Get :: "string \<Rightarrow> 'b \<Rightarrow> (string + bytes) \<times> 'b"
  SetKey :: "string \<Rightarrow> bytes \<Rightarrow> 'b \<Rightarrow> string option \<times> 'b"
  SetSuccess :: "string \<Rightarrow> 'b \<Rightarrow> string option \<times> 'b"
  SetFailed :: "string \<Rightarrow> 'b \<Rightarrow> string option \<times> 'b"
  GetSuccess :: "'b \<Rightarrow> (string + string list) \<times> 'b"
  GetFailed :: "'b \<Rightarrow> (string + string list) \<times> 'b"

record 'b JobCtx =
  ctx_Meta :: Meta
  ctx_results :: "bytes list"
  store :: "'b Results"

text \<open>
  A handler and the lifecycle callbacks are user code: they may do anything to the
  backend. They receive the \<open>JobCtx\<close> by value, so the caller's copy is unchanged.
\<close>

type_synonym 'b handler = "bytes \<Rightarrow> 'b JobCtx \<Rightarrow> 'b \<Rightarrow> string option \<times> 'b"

type_synonym 'b callback = "'b JobCtx \<Rightarrow> 'b \<Rightarrow> 'b"

record 'b TaskOpts =
  Concurrency :: "32 word"
  opts_Queue :: string
  SuccessCB :: "'b callback option"
  ProcessingCB :: "'b callback option"
  RetryingCB :: "'b callback option"
  FailedCB :: "'b callback option"

record 'b Task =
  name :: string
  handler :: "'b handler"
  opts :: "'b TaskOpts"

text \<open>The logger of \<open>logf\<close>: only its \<open>Level\<close> field is read by the server file.\<close>

record Logger =
  Level :: int

text \<open>
  The scheduler of \<open>robfig/cron\<close>: \<open>cron.New()\<close> constructs a scheduler that is not
  running; only \<open>Start\<close> sets it running.
\<close>

record Cron =
  running :: bool

definition cron_New :: Cron where
  "cron_New = \<lparr>running = False\<rparr>"

datatype TracerProvider = TracerProvider

record 'b Server =
  log :: Logger
  broker :: "'b Broker"
  results :: "'b Results"
  cron :: Cron
  traceProv :: "TracerProvider option"
  tasks :: "string \<rightharpoonup> 'b Task"

record 'b ServerOpts =
  so_Broker :: "'b Broker option"
  so_Results :: "'b Results option"
  so_Logger :: Logger
  so_TraceProvider :: "TracerProvider option"

subsection \<open>Registry\<close>

definition registerHandler :: "'b Server \<Rightarrow> string \<Rightarrow> 'b Task \<Rightarrow> 'b Server" where
  "registerHandler s n t = s\<lparr>tasks := (tasks s)(n \<mapsto> t)\<rparr>"

definition getHandler :: "'b Server \<Rightarrow> string \<Rightarrow> string + 'b Task" where
  "getHandler s n =
     (case tasks s n of
        None \<Rightarrow> Inl (''handler '' @ n @ '' not found'')
      | Some fn \<Rightarrow> Inr fn)"

definition RegisterTask :: "'b Server \<Rightarrow> string \<Rightarrow> 'b handler \<Rightarrow> 'b TaskOpts \<Rightarrow> 'b Server" where
  "RegisterTask s n fn os =
     (let os = (if Concurrency os \<le> 0 then os\<lparr>Concurrency := defaultConcurrency\<rparr> else os);
          os = (if opts_Queue os = '''' then os\<lparr>opts_Queue := DefaultQueue\<rparr> else os)
      in registerHandler s n \<lparr>name = n, handler = fn, opts = os\<rparr>)"

subsection \<open>Construction\<close>

text \<open>
  \<open>logf.New(logf.Opts{})\<close> is the library's default logger; it is the parameter
  \<open>logf_New\<close>.
\<close>

definition NewServer :: "Logger \<Rightarrow> 'b ServerOpts \<Rightarrow> string + 'b Server" where
  "NewServer logf_New o' =
     (case so_Broker o' of
        None \<Rightarrow> Inl ''broker missing in options''
      | Some br \<Rightarrow>
          (case so_Results o' of
             None \<Rightarrow> Inl ''results missing in options''
           | Some rs \<Rightarrow>
               (let lg = (if Level (so_Logger o') = 0 then logf_New else so_Logger o')
                in Inr \<lparr>log = lg, broker = br, results = rs, cron = cron_New,
                         traceProv = so_TraceProvider o', tasks = Map.empty\<rparr>)))"

subsection \<open>What the server file uses but does not define\<close>

text \<open>
  The server file calls functions and reads constants that are declared elsewhere: the
  MessagePack codec and the clock (libraries), and \<open>DefaultMeta\<close>, \<open>setJobMessage\<close>,
  \<open>enqueueWithMeta\<close> and \<open>resultsPrefix\<close> (other files of the package). They are
  parameters, and nothing is assumed of them.
  \<^item> \<open>marshal\<close> is \<open>msgpack.Marshal\<close> on a \<open>JobMessage\<close>;
  \<^item> \<open>unmarshal\<close> is \<open>msgpack.Unmarshal(work, &msg)\<close>: the decoded message, or an error;
  \<^item> \<open>unmarshal_value\<close> is \<open>msgpack.Unmarshal(b, d)\<close> with \<open>d\<close> a \<open>[][]byte\<close> passed by
    value: Go copies the slice header, the callee cannot assign to the caller's
    variable, so the only thing the call gives back is its error;
  \<^item> \<open>now\<close> is \<open>time.Now()\<close>, read from the environment;
  \<^item> \<open>setJobMessage\<close> writes a job message's state record through the results
    interface; \<open>enqueueWithMeta\<close> enqueues a job with pre-filled meta and returns
    the new uuid.
\<close>

record 'b env =
  marshal :: "JobMessage \<Rightarrow> string + bytes"
  unmarshal :: "bytes \<Rightarrow> string + JobMessage"
  unmarshal_value :: "bytes \<Rightarrow> bytes list \<Rightarrow> string option"
  now :: "'b \<Rightarrow> time"
  DefaultMeta :: "JobOpts \<Rightarrow> Meta"
  setJobMessage :: "JobMessage \<Rightarrow> 'b \<Rightarrow> string option \<times> 'b"
  enqueueWithMeta :: "Job \<Rightarrow> Meta \<Rightarrow> 'b \<Rightarrow> (string \<times> string option) \<times> 'b"
  resultsPrefix :: string

subsection \<open>The log of calls\<close>

datatype cb_kind = OnProcessing | OnSuccessCB | OnRetrying | OnFailed

datatype call =
    CallHandler string bytes
  | CallCB cb_kind
  | CallSetJobMessage JobMessage
  | CallSetSuccess string
  | CallSetFailed string
  | CallBrokerEnqueue bytes string
  | CallEnqueueWithMeta Job Meta string
  | CallResultsGet string

text \<open>
  A log entry is a call together with the error it returned (\<open>None\<close> for nil). The
  entry of \<open>enqueueWithMeta\<close> also carries the uuid the call returned.
\<close>

type_synonym entry = "call \<times> string option"

record 'b world =
  calls :: "entry list"
  backend :: 'b

definition invoke :: "('a \<Rightarrow> entry) \<Rightarrow> ('b \<Rightarrow> 'a \<times> 'b) \<Rightarrow> 'b world \<Rightarrow> 'a \<times> 'b world" where
  "invoke mk f w =
     (case f (backend w) of
        (r, b') \<Rightarrow> (r, \<lparr>calls = calls w @ [mk r], backend = b'\<rparr>))"

definition sum_err :: "string + 'a \<Rightarrow> string option" where
  "sum_err r = (case r of Inl e \<Rightarrow> Some e | Inr _ \<Rightarrow> None)"

definition run_cb :: "cb_kind \<Rightarrow> 'b callback option \<Rightarrow> 'b JobCtx \<Rightarrow> 'b world \<Rightarrow> 'b world" where
  "run_cb k cb ctx w =
     (case cb of
        None \<Rightarrow> w
      | Some f \<Rightarrow> snd (invoke (\<lambda>_. (CallCB k, None)) (\<lambda>b. ((), f ctx b)) w))"

definition run_handler ::
  "'b Task \<Rightarrow> bytes \<Rightarrow> 'b JobCtx \<Rightarrow> 'b world \<Rightarrow> string option \<times> 'b world" where
  "run_handler task p ctx w = invoke (\<lambda>r. (CallHandler (name task) p, r)) (handler task p ctx) w"

subsection \<open>Status writers\<close>

definition statusStarted :: "'b env \<Rightarrow> JobMessage \<Rightarrow> 'b world \<Rightarrow> string option \<times> 'b world" where
  "statusStarted e t w =
     (let t = t\<lparr>ProcessedAt := now e (backend w)\<rparr>;
          t = t\<lparr>Status := StatusStarted\<rparr>
      in case invoke (\<lambda>r. (CallSetJobMessage t, r)) (setJobMessage e t) w of
           (Some err, w1) \<Rightarrow> (Some err, w1)
         | (None, w1) \<Rightarrow> (None, w1))"

definition statusProcessing :: "'b env \<Rightarrow> JobMessage \<Rightarrow> 'b world \<Rightarrow> string option \<times> 'b world" where
  "statusProcessing e t w =
     (let t = t\<lparr>ProcessedAt := now e (backend w)\<rparr>;
          t = t\<lparr>Status := StatusProcessing\<rparr>
      in case invoke (\<lambda>r. (CallSetJobMessage t, r)) (setJobMessage e t) w of
           (Some err, w1) \<Rightarrow> (Some err, w1)
         | (None, w1) \<Rightarrow> (None, w1))"

definition statusDone ::
  "'b env \<Rightarrow> 'b Server \<Rightarrow> JobMessage \<Rightarrow> 'b world \<Rightarrow> string option \<times> 'b world" where
  "statusDone e s t w =
     (let t = t\<lparr>ProcessedAt := now e (backend w)\<rparr>;
          t = t\<lparr>Status := StatusDone\<rparr>
      in case invoke (\<lambda>r. (CallSetSuccess (UUID t), r)) (SetSuccess (results s) (UUID t)) w of
           (Some err, w1) \<Rightarrow> (Some err, w1)
         | (None, w1) \<Rightarrow>
             (case invoke (\<lambda>r. (CallSetJobMessage t, r)) (setJobMessage e t) w1 of
                (Some err, w2) \<Rightarrow> (Some err, w2)
              | (None, w2) \<Rightarrow> (None, w2)))"

definition statusFailed ::
  "'b env \<Rightarrow> 'b Server \<Rightarrow> JobMessage \<Rightarrow> 'b world \<Rightarrow> string option \<times> 'b world" where
  "statusFailed e s t w =
     (let t = t\<lparr>ProcessedAt := now e (backend w)\<rparr>;
          t = t\<lparr>Status := StatusFailed\<rparr>
      in case invoke (\<lambda>r. (CallSetFailed (UUID t), r)) (SetFailed (results s) (UUID t)) w of
           (Some err, w1) \<Rightarrow> (Some err, w1)
         | (None, w1) \<Rightarrow>
             (case invoke (\<lambda>r. (CallSetJobMessage t, r)) (setJobMessage e t) w1 of
                (Some err, w2) \<Rightarrow> (Some err, w2)
              | (None, w2) \<Rightarrow> (None, w2)))"

definition statusRetrying :: "'b env \<Rightarrow> JobMessage \<Rightarrow> 'b world \<Rightarrow> string option \<times> 'b world" where
  "statusRetrying e t w =
     (let t = t\<lparr>ProcessedAt := now e (backend w)\<rparr>;
          t = t\<lparr>Status := StatusRetrying\<rparr>
      in case invoke (\<lambda>r. (CallSetJobMessage t, r)) (setJobMessage e t) w of
           (Some err, w1) \<Rightarrow> (Some err, w1)
         | (None, w1) \<Rightarrow> (None, w1))"

subsection \<open>Retry, execution, the worker\<close>

definition retryJob ::
  "'b env \<Rightarrow> 'b Server \<Rightarrow> JobMessage \<Rightarrow> 'b world \<Rightarrow> string option \<times> 'b world" where
  "retryJob e s msg w =
     (let msg = msg\<lparr>Retried := Retried msg + 1\<rparr>
      in case marshal e msg of
           Inl err \<Rightarrow> (Some err, w)
         | Inr b \<Rightarrow>
             (case statusRetrying e msg w of
                (Some err, w1) \<Rightarrow> (Some err, w1)
              | (None, w1) \<Rightarrow>
                  (case invoke (\<lambda>r. (CallBrokerEnqueue b (Queue msg), r))
                          (Enqueue (broker s) b (Queue msg)) w1 of
                     (Some err, w2) \<Rightarrow> (Some err, w2)
                   | (None, w2) \<Rightarrow> (None, w2))))"

definition taskCtx_of :: "'b Server \<Rightarrow> JobMessage \<Rightarrow> 'b JobCtx" where
  "taskCtx_of s msg = \<lparr>ctx_Meta = Meta.truncate msg, ctx_results = [], store = results s\<rparr>"

definition execJob ::
  "'b env \<Rightarrow> 'b Server \<Rightarrow> JobMessage \<Rightarrow> 'b Task \<Rightarrow> 'b world \<Rightarrow> string option \<times> 'b world" where
  "execJob e s msg task w =
     (let taskCtx = taskCtx_of s msg;
          w1 = run_cb OnProcessing (ProcessingCB (opts task)) taskCtx w
      in case run_handler task (Payload (Job msg)) taskCtx w1 of
           (Some err, w2) \<Rightarrow>
             (let msg = msg\<lparr>PrevErr := err\<rparr>
              in if MaxRetry msg \<noteq> Retried msg
                 then retryJob e s msg (run_cb OnRetrying (RetryingCB (opts task)) taskCtx w2)
                 else statusFailed e s msg (run_cb OnFailed (FailedCB (opts task)) taskCtx w2))
         | (None, w2) \<Rightarrow>
             (let w3 = run_cb OnSuccessCB (SuccessCB (opts task)) taskCtx w2
              in case OnSuccess (Job msg) of
                   Some j \<Rightarrow>
                     (let nj = j;
                          meta = DefaultMeta e (Opts nj);
                          meta = meta\<lparr>PrevJobResults := ctx_results taskCtx\<rparr>
                      in case invoke (\<lambda>(u, r). (CallEnqueueWithMeta nj meta u, r))
                              (enqueueWithMeta e nj meta) w3 of
                           ((u, Some err), w4) \<Rightarrow> (Some err, w4)
                         | ((u, None), w4) \<Rightarrow> statusDone e s (msg\<lparr>OnSuccessUUID := u\<rparr>) w4)
                 | None \<Rightarrow> statusDone e s msg w3))"

text \<open>
  The body of the worker's loop for one piece of work received on the channel. Every
  error is logged and the loop goes on to the next piece of work.
\<close>

definition process_msg :: "'b env \<Rightarrow> 'b Server \<Rightarrow> bytes \<Rightarrow> 'b world \<Rightarrow> 'b world" where
  "process_msg e s work w =
     (case unmarshal e work of
        Inl err \<Rightarrow> w
      | Inr msg \<Rightarrow>
          (case getHandler s (Task (Job msg)) of
             Inl err \<Rightarrow> w
           | Inr task \<Rightarrow>
               (case statusProcessing e msg w of
                  (Some err, w1) \<Rightarrow> w1
                | (None, w1) \<Rightarrow> snd (execJob e s msg task w1))))"

text \<open>The loop, over the work received until the context is cancelled.\<close>

definition process :: "'b env \<Rightarrow> 'b Server \<Rightarrow> bytes list \<Rightarrow> 'b world \<Rightarrow> 'b world" where
  "process e s works w = foldl (\<lambda>w work. process_msg e s work w) w works"

subsection \<open>Queries\<close>

definition GetResult ::
  "'b env \<Rightarrow> 'b Server \<Rightarrow> string \<Rightarrow> 'b world \<Rightarrow> (string + bytes list) \<times> 'b world" where
  "GetResult e s uuid w =
     (case invoke (\<lambda>r. (CallResultsGet (resultsPrefix e @ uuid), sum_err r))
             (Get (results s) (resultsPrefix e @ uuid)) w of
        (Inl err, w1) \<Rightarrow> (Inl err, w1)
      | (Inr b, w1) \<Rightarrow>
          (let d = []
           in case unmarshal_value e b d of
                Some err \<Rightarrow> (Inl err, w1)
              | None \<Rightarrow> (Inr d, w1)))"

subsection \<open>Reading the log\<close>

text \<open>The entry a lifecycle callback leaves in the log: none when the callback is nil.\<close>

definition cb_entries :: "cb_kind \<Rightarrow> 'b callback option \<Rightarrow> entry list" where
  "cb_entries k cb = (case cb of None \<Rightarrow> [] | Some _ \<Rightarrow> [(CallCB k, None)])"

text \<open>
  The error the handler returns when \<open>execJob\<close> runs it from the world \<open>w\<close>: the
  handler runs after the \<open>ProcessingCB\<close> callback, on the job's payload and a fresh
  context.
\<close>

definition handler_outcome :: "'b Server \<Rightarrow> JobMessage \<Rightarrow> 'b Task \<Rightarrow> 'b world \<Rightarrow> string option" where
  "handler_outcome s msg task w =
     fst (run_handler task (Payload (Job msg)) (taskCtx_of s msg)
            (run_cb OnProcessing (ProcessingCB (opts task)) (taskCtx_of s msg) w))"

text \<open>The world in which the handler has just returned.\<close>

definition after_handler :: "'b Server \<Rightarrow> JobMessage \<Rightarrow> 'b Task \<Rightarrow> 'b world \<Rightarrow> 'b world" where
  "after_handler s msg task w =
     snd (run_handler task (Payload (Job msg)) (taskCtx_of s msg)
            (run_cb OnProcessing (ProcessingCB (opts task)) (taskCtx_of s msg) w))"

text \<open>
  The worlds in which \<open>execJob\<close> starts its last step: after the \<open>RetryingCB\<close> callback
  (where \<open>retryJob\<close> starts), after the \<open>FailedCB\<close> callback (where \<open>statusFailed\<close>
  starts) and after the \<open>SuccessCB\<close> callback (where the chain continues).
\<close>

definition before_retry :: "'b Server \<Rightarrow> JobMessage \<Rightarrow> 'b Task \<Rightarrow> 'b world \<Rightarrow> 'b world" where
  "before_retry s msg task w =
     run_cb OnRetrying (RetryingCB (opts task)) (taskCtx_of s msg) (after_handler s msg task w)"

definition before_failed :: "'b Server \<Rightarrow> JobMessage \<Rightarrow> 'b Task \<Rightarrow> 'b world \<Rightarrow> 'b world" where
  "before_failed s msg task w =
     run_cb OnFailed (FailedCB (opts task)) (taskCtx_of s msg) (after_handler s msg task w)"

definition after_success_cb :: "'b Server \<Rightarrow> JobMessage \<Rightarrow> 'b Task \<Rightarrow> 'b world \<Rightarrow> 'b world" where
  "after_success_cb s msg task w =
     run_cb OnSuccessCB (SuccessCB (opts task)) (taskCtx_of s msg) (after_handler s msg task w)"

text \<open>
  The log of \<open>execJob\<close> up to and including the handler's return with the error \<open>r\<close>,
  from the world \<open>w\<close>.
\<close>

definition log_to_handler :: "JobMessage \<Rightarrow> 'b Task \<Rightarrow> 'b world \<Rightarrow> string option \<Rightarrow> entry list" where
  "log_to_handler msg task w r =
     calls w @ cb_entries OnProcessing (ProcessingCB (opts task))
       @ [(CallHandler (name task) (Payload (Job msg)), r)]"

text \<open>The entries a run has appended to the log of the world it started from.\<close>

definition new_calls :: "'b world \<Rightarrow> 'b world \<Rightarrow> entry list" where
  "new_calls w w' = drop (length (calls w)) (calls w')"

definition is_broker_enqueue :: "entry \<Rightarrow> bool" where
  "is_broker_enqueue en = (case fst en of CallBrokerEnqueue _ _ \<Rightarrow> True | _ \<Rightarrow> False)"

definition is_handler_call :: "entry \<Rightarrow> bool" where
  "is_handler_call en = (case fst en of CallHandler _ _ \<Rightarrow> True | _ \<Rightarrow> False)"

definition is_failed_write :: "entry \<Rightarrow> bool" where
  "is_failed_write en =
     (case fst en of
        CallSetFailed _ \<Rightarrow> True
      | CallSetJobMessage m \<Rightarrow> Status m = StatusFailed
      | _ \<Rightarrow> False)"

definition is_success_write :: "entry \<Rightarrow> bool" where
  "is_success_write en =
     (case fst en of
        CallSetSuccess _ \<Rightarrow> True
      | CallSetJobMessage m \<Rightarrow> Status m = StatusDone
      | _ \<Rightarrow> False)"

subsection \<open>An in-memory broker and results store\<close>

text \<open>
  A small instance of the collaborators, on which the definitions above can be run:
  the state records written, the two indexes, the broker's queue and the artifacts
  are lists; three switches make the broker, the indexes or the state store fail.
  The codec of this instance is a toy: it carries the two counters only.
\<close>

record mem =
  written :: "JobMessage list"
  success_idx :: "string list"
  failed_idx :: "string list"
  queued :: "(string \<times> bytes) list"
  artifacts :: "(string \<times> bytes) list"
  clock :: nat
  broker_down :: bool
  index_down :: bool
  store_down :: bool

definition mem_init :: mem where
  "mem_init = \<lparr>written = [], success_idx = [], failed_idx = [], queued = [],
      artifacts = [], clock = 100, broker_down = False, index_down = False,
      store_down = False\<rparr>"

definition mem_broker :: "mem Broker" where
  "mem_broker = \<lparr>Enqueue = (\<lambda>b q m.
      if broker_down m then (Some ''broker down'', m)
      else (None, m\<lparr>queued := queued m @ [(q, b)]\<rparr>))\<rparr>"

definition mem_results :: "mem Results" where
  "mem_results = \<lparr>
     Get = (\<lambda>k m. case map_of (artifacts m) k of
                     None \<Rightarrow> (Inl ''key not found'', m)
                   | Some b \<Rightarrow> (Inr b, m)),
     SetKey = (\<lambda>k b m. (None, m\<lparr>artifacts := (k, b) # artifacts m\<rparr>)),
     SetSuccess = (\<lambda>u m. if index_down m then (Some ''index down'', m)
                          else (None, m\<lparr>success_idx := success_idx m @ [u]\<rparr>)),
     SetFailed = (\<lambda>u m. if index_down m then (Some ''index down'', m)
                         else (None, m\<lparr>failed_idx := failed_idx m @ [u]\<rparr>)),
     GetSuccess = (\<lambda>m. (Inr (success_idx m), m)),
     GetFailed = (\<lambda>m. (Inr (failed_idx m), m))\<rparr>"

definition sum_job :: Job where
  "sum_job = MkJob ''add'' [3, 4] \<lparr>jo_Queue = [], jo_MaxRetries = 2, jo_Schedule = []\<rparr> None"

definition sum_msg :: JobMessage where
  "sum_msg = \<lparr>UUID = ''uuid-1'', OnSuccessUUID = [], Status = ''queued'',
      Queue = ''tasqueue:tasks'', MaxRetry = 2, Retried = 0, PrevErr = [],
      ProcessedAt = 7, PrevJobResults = [], Job = sum_job\<rparr>"

definition mem_env :: "mem env" where
  "mem_env = \<lparr>
     marshal = (\<lambda>m. Inr [ucast (Retried m), ucast (MaxRetry m)]),
     unmarshal = (\<lambda>work. case work of
                    [r, mr] \<Rightarrow> Inr (sum_msg\<lparr>MaxRetry := ucast mr, Retried := ucast r\<rparr>)
                  | _ \<Rightarrow> Inl ''msgpack: unexpected end of input''),
     unmarshal_value = (\<lambda>b d. Some ''msgpack: Decode(non-pointer [][]uint8)''),
     now = clock,
     DefaultMeta = (\<lambda>os. \<lparr>UUID = [], OnSuccessUUID = [], Status = [],
        Queue = jo_Queue os, MaxRetry = jo_MaxRetries os, Retried = 0, PrevErr = [],
        ProcessedAt = 0, PrevJobResults = []\<rparr>),
     setJobMessage = (\<lambda>t m. if store_down m then (Some ''store down'', m)
                             else (None, m\<lparr>written := written m @ [t]\<rparr>)),
     enqueueWithMeta = (\<lambda>j meta m.
        if broker_down m then (([], Some ''broker down''), m)
        else ((''uuid-2'', None), m\<lparr>queued := queued m @ [(Queue meta, [])]\<rparr>)),
     resultsPrefix = ''result:''\<rparr>"

definition mem_server :: "mem Server" where
  "mem_server = \<lparr>log = \<lparr>Level = 2\<rparr>, broker = mem_broker, results = mem_results,
      cron = cron_New, traceProv = None, tasks = Map.empty\<rparr>"

definition no_callbacks :: "mem TaskOpts" where
  "no_callbacks = \<lparr>Concurrency = 1, opts_Queue = ''tasqueue:tasks'', SuccessCB = None,
      ProcessingCB = None, RetryingCB = None, FailedCB = None\<rparr>"

definition failing_task :: "mem Task" where
  "failing_task = \<lparr>name = ''add'', handler = (\<lambda>p ctx m. (Some ''boom'', m)),
      opts = no_callbacks\<rparr>"

definition ok_task :: "mem Task" where
  "ok_task = \<lparr>name = ''add'', handler = (\<lambda>p ctx m. (None, m)), opts = no_callbacks\<rparr>"

definition world0 :: "mem world" where
  "world0 = \<lparr>calls = [], backend = mem_init\<rparr>"

text \<open>
  A message whose job has a successor, worlds in which one collaborator is down, and a
  server with the task \<open>add\<close> registered.
\<close>

definition chain_msg :: JobMessage where
  "chain_msg = sum_msg\<lparr>Job := MkJob ''add'' [3, 4]
      \<lparr>jo_Queue = [], jo_MaxRetries = 2, jo_Schedule = []\<rparr> (Some sum_job)\<rparr>"

definition broker_down_world :: "mem world" where
  "broker_down_world = \<lparr>calls = [], backend = mem_init\<lparr>broker_down := True\<rparr>\<rparr>"

definition index_down_world :: "mem world" where
  "index_down_world = \<lparr>calls = [], backend = mem_init\<lparr>index_down := True\<rparr>\<rparr>"

definition store_down_world :: "mem world" where
  "store_down_world = \<lparr>calls = [], backend = mem_init\<lparr>store_down := True\<rparr>\<rparr>"

definition add_server :: "mem Server" where
  "add_server = RegisterTask mem_server ''add'' (handler ok_task) no_callbacks"

text \<open>
  A second codec for the in-memory instance, which carries the status and the timestamp
  of a message next to its two counters (the status as a code), so that what is on the
  wire shows when the message was marshalled. And a codec that refuses to encode.
\<close>

definition status_code :: "string \<Rightarrow> 8 word" where
  "status_code st =
     (if st = StatusStarted then 0 else if st = StatusProcessing then 1
      else if st = StatusRetrying then 2 else if st = StatusDone then 3
      else if st = StatusFailed then 4 else 5)"

definition code_status :: "8 word \<Rightarrow> string" where
  "code_status c =
     (if c = 0 then StatusStarted else if c = 1 then StatusProcessing
      else if c = 2 then StatusRetrying else if c = 3 then StatusDone
      else if c = 4 then StatusFailed else [])"

definition wire_env :: "mem env" where
  "wire_env = mem_env\<lparr>
     marshal := (\<lambda>m. Inr [ucast (Retried m), ucast (MaxRetry m), of_nat (ProcessedAt m),
                          status_code (Status m)]),
     unmarshal := (\<lambda>work. case work of
                    [r, mr, pa, st] \<Rightarrow>
                      Inr (sum_msg\<lparr>Status := code_status st, MaxRetry := ucast mr,
                             Retried := ucast r, ProcessedAt := unat pa\<rparr>)
                  | _ \<Rightarrow> Inl ''msgpack: unexpected end of input'')\<rparr>"

definition no_codec_env :: "mem env" where
  "no_codec_env = mem_env\<lparr>marshal := (\<lambda>m. Inl ''msgpack: Encode(unsupported)'')\<rparr>"

section \<open>Properties\<close>

subsection \<open>What each step appends to the log\<close>

lemma invoke_calls:
  "invoke mk f w = (r, w') \<Longrightarrow>
     calls w' = calls w @ [mk r] \<and> r = fst (f (backend w)) \<and> backend w' = snd (f (backend w))"
  by (auto simp: invoke_def split: prod.splits)

lemma run_cb_calls: "calls (run_cb k cb ctx w) = calls w @ cb_entries k cb"
  by (auto simp: run_cb_def cb_entries_def invoke_def split: option.splits prod.splits)

lemma statusRetrying_calls:
  "statusRetrying e t w = (r, w') \<Longrightarrow>
     calls w' = calls w @
       [(CallSetJobMessage (t\<lparr>ProcessedAt := now e (backend w), Status := StatusRetrying\<rparr>), r)]"
  by (auto simp: statusRetrying_def Let_def invoke_def split: prod.splits option.splits)

lemma statusProcessing_calls:
  "statusProcessing e t w = (r, w') \<Longrightarrow>
     calls w' = calls w @
       [(CallSetJobMessage (t\<lparr>ProcessedAt := now e (backend w), Status := StatusProcessing\<rparr>), r)]
     \<and> r = fst (setJobMessage e
               (t\<lparr>ProcessedAt := now e (backend w), Status := StatusProcessing\<rparr>) (backend w))"
  by (auto simp: statusProcessing_def Let_def invoke_def split: prod.splits option.splits)

lemma statusDone_calls:
  "statusDone e s t w = (r, w') \<Longrightarrow>
     (r \<noteq> None \<and> r = fst (SetSuccess (results s) (UUID t) (backend w))
        \<and> calls w' = calls w @ [(CallSetSuccess (UUID t), r)])
   \<or> (fst (SetSuccess (results s) (UUID t) (backend w)) = None
        \<and> calls w' = calls w @ [(CallSetSuccess (UUID t), None),
             (CallSetJobMessage (t\<lparr>ProcessedAt := now e (backend w), Status := StatusDone\<rparr>), r)])"
  by (auto simp: statusDone_def Let_def invoke_def split: prod.splits option.splits)

lemma statusFailed_calls:
  "statusFailed e s t w = (r, w') \<Longrightarrow>
     (r \<noteq> None \<and> r = fst (SetFailed (results s) (UUID t) (backend w))
        \<and> calls w' = calls w @ [(CallSetFailed (UUID t), r)])
   \<or> (fst (SetFailed (results s) (UUID t) (backend w)) = None
        \<and> calls w' = calls w @ [(CallSetFailed (UUID t), None),
             (CallSetJobMessage (t\<lparr>ProcessedAt := now e (backend w), Status := StatusFailed\<rparr>), r)])"
  by (auto simp: statusFailed_def Let_def invoke_def split: prod.splits option.splits)

lemma retryJob_calls:
  "retryJob e s msg w = (r, w') \<Longrightarrow> marshal e (msg\<lparr>Retried := Retried msg + 1\<rparr>) = Inr b \<Longrightarrow>
     (r \<noteq> None \<and> calls w' = calls w @
         [(CallSetJobMessage (msg\<lparr>Retried := Retried msg + 1, ProcessedAt := now e (backend w),
              Status := StatusRetrying\<rparr>), r)])
   \<or> calls w' = calls w @
         [(CallSetJobMessage (msg\<lparr>Retried := Retried msg + 1, ProcessedAt := now e (backend w),
              Status := StatusRetrying\<rparr>), None),
          (CallBrokerEnqueue b (Queue msg), r)]"
  by (auto simp: retryJob_def Let_def invoke_def split: prod.splits option.splits sum.splits
       dest!: statusRetrying_calls)

lemma retryJob_marshal_error:
  "marshal e (msg\<lparr>Retried := Retried msg + 1\<rparr>) = Inl x \<Longrightarrow> retryJob e s msg w = (Some x, w)"
  by (simp add: retryJob_def Let_def)

lemma word32_inc_exact: "(a::32 word) < b \<Longrightarrow> unat (a + 1) = unat a + 1"
  by unat_arith

lemma calls_after_handler:
  "calls (after_handler s msg task w) = log_to_handler msg task w (handler_outcome s msg task w)"
  by (auto simp: after_handler_def handler_outcome_def log_to_handler_def run_handler_def
        invoke_def run_cb_calls split: prod.splits)

lemma no_enqueue_in_cb [simp]: "\<not> list_ex is_broker_enqueue (cb_entries k cb)"
  by (simp add: cb_entries_def is_broker_enqueue_def split: option.splits)

lemma no_failed_write_in_cb [simp]: "\<not> list_ex is_failed_write (cb_entries k cb)"
  by (simp add: cb_entries_def is_failed_write_def split: option.splits)

lemma no_success_write_in_cb [simp]: "\<not> list_ex is_success_write (cb_entries k cb)"
  by (simp add: cb_entries_def is_success_write_def split: option.splits)

lemma new_calls_append [simp]: "calls w' = calls w @ xs \<Longrightarrow> new_calls w w' = xs"
  by (simp add: new_calls_def)

lemma new_calls_log_to_handler:
  "calls w' = log_to_handler msg task w r @ xs \<Longrightarrow>
   new_calls w w' = cb_entries OnProcessing (ProcessingCB (opts task))
       @ (CallHandler (name task) (Payload (Job msg)), r) # xs"
  by (simp add: new_calls_def log_to_handler_def)

lemma statusDone_extends: "\<exists>xs. calls (snd (statusDone e s t w)) = calls w @ xs"
proof -
  obtain r w' where d: "statusDone e s t w = (r, w')"
    by (cases "statusDone e s t w")
  from statusDone_calls [OF d] show ?thesis
    unfolding d by auto
qed

lemma statusFailed_extends: "\<exists>xs. calls (snd (statusFailed e s t w)) = calls w @ xs"
proof -
  obtain r w' where d: "statusFailed e s t w = (r, w')"
    by (cases "statusFailed e s t w")
  from statusFailed_calls [OF d] show ?thesis
    unfolding d by auto
qed

lemma retryJob_extends: "\<exists>xs. calls (snd (retryJob e s msg w)) = calls w @ xs"
proof (cases "marshal e (msg\<lparr>Retried := Retried msg + 1\<rparr>)")
  case (Inl x)
  then show ?thesis
    by (simp add: retryJob_marshal_error)
next
  case (Inr b)
  obtain r w' where d: "retryJob e s msg w = (r, w')"
    by (cases "retryJob e s msg w")
  from retryJob_calls [OF d Inr] show ?thesis
    unfolding d by auto
qed

subsection \<open>The result of each step, log and backend\<close>

lemma statusDone_run:
  "statusDone e s t w =
     (let t' = t\<lparr>ProcessedAt := now e (backend w), Status := StatusDone\<rparr>
      in case SetSuccess (results s) (UUID t) (backend w) of
           (Some x, b1) \<Rightarrow>
             (Some x, \<lparr>calls = calls w @ [(CallSetSuccess (UUID t), Some x)], backend = b1\<rparr>)
         | (None, b1) \<Rightarrow>
             (case setJobMessage e t' b1 of
                (r, b2) \<Rightarrow>
                  (r, \<lparr>calls = calls w @ [(CallSetSuccess (UUID t), None),
                                           (CallSetJobMessage t', r)],
                       backend = b2\<rparr>)))"
  by (auto simp: statusDone_def Let_def invoke_def split: prod.splits option.splits)

lemma statusFailed_run:
  "statusFailed e s t w =
     (let t' = t\<lparr>ProcessedAt := now e (backend w), Status := StatusFailed\<rparr>
      in case SetFailed (results s) (UUID t) (backend w) of
           (Some x, b1) \<Rightarrow>
             (Some x, \<lparr>calls = calls w @ [(CallSetFailed (UUID t), Some x)], backend = b1\<rparr>)
         | (None, b1) \<Rightarrow>
             (case setJobMessage e t' b1 of
                (r, b2) \<Rightarrow>
                  (r, \<lparr>calls = calls w @ [(CallSetFailed (UUID t), None),
                                           (CallSetJobMessage t', r)],
                       backend = b2\<rparr>)))"
  by (auto simp: statusFailed_def Let_def invoke_def split: prod.splits option.splits)

lemma retryJob_run:
  "retryJob e s msg w =
     (let m' = msg\<lparr>Retried := Retried msg + 1\<rparr>;
          wr = m'\<lparr>ProcessedAt := now e (backend w), Status := StatusRetrying\<rparr>
      in case marshal e m' of
           Inl x \<Rightarrow> (Some x, w)
         | Inr b \<Rightarrow>
             (case setJobMessage e wr (backend w) of
                (Some x, b1) \<Rightarrow>
                  (Some x, \<lparr>calls = calls w @ [(CallSetJobMessage wr, Some x)], backend = b1\<rparr>)
              | (None, b1) \<Rightarrow>
                  (case Enqueue (broker s) b (Queue msg) b1 of
                     (r, b2) \<Rightarrow>
                       (r, \<lparr>calls = calls w @ [(CallSetJobMessage wr, None),
                                                (CallBrokerEnqueue b (Queue msg), r)],
                            backend = b2\<rparr>))))"
  by (auto simp: retryJob_def statusRetrying_def Let_def invoke_def
        split: prod.splits option.splits sum.splits)

subsection \<open>The two branches of \<open>execJob\<close>\<close>

lemma execJob_handler_error:
  "handler_outcome s msg task w = Some err \<Longrightarrow>
   execJob e s msg task w =
     (if MaxRetry msg \<noteq> Retried msg
      then retryJob e s (msg\<lparr>PrevErr := err\<rparr>)
             (run_cb OnRetrying (RetryingCB (opts task)) (taskCtx_of s msg)
                (after_handler s msg task w))
      else statusFailed e s (msg\<lparr>PrevErr := err\<rparr>)
             (run_cb OnFailed (FailedCB (opts task)) (taskCtx_of s msg)
                (after_handler s msg task w)))"
  by (auto simp: execJob_def handler_outcome_def after_handler_def Let_def
        split: prod.splits option.splits)

lemma execJob_handler_ok:
  "handler_outcome s msg task w = None \<Longrightarrow>
   execJob e s msg task w =
     (let w3 = run_cb OnSuccessCB (SuccessCB (opts task)) (taskCtx_of s msg)
                 (after_handler s msg task w)
      in case OnSuccess (Job msg) of
           Some j \<Rightarrow>
             (case invoke (\<lambda>(u, r). (CallEnqueueWithMeta j
                             ((DefaultMeta e (Opts j))\<lparr>PrevJobResults := []\<rparr>) u, r))
                     (enqueueWithMeta e j ((DefaultMeta e (Opts j))\<lparr>PrevJobResults := []\<rparr>)) w3 of
                ((u, Some err), w4) \<Rightarrow> (Some err, w4)
              | ((u, None), w4) \<Rightarrow> statusDone e s (msg\<lparr>OnSuccessUUID := u\<rparr>) w4)
         | None \<Rightarrow> statusDone e s msg w3)"
  by (auto simp: execJob_def handler_outcome_def after_handler_def Let_def taskCtx_of_def
        split: prod.splits option.splits)

lemma calls_before_retry:
  "handler_outcome s msg task w = r \<Longrightarrow>
   calls (before_retry s msg task w) =
     log_to_handler msg task w r @ cb_entries OnRetrying (RetryingCB (opts task))"
  by (simp add: before_retry_def run_cb_calls calls_after_handler)

lemma calls_before_failed:
  "handler_outcome s msg task w = r \<Longrightarrow>
   calls (before_failed s msg task w) =
     log_to_handler msg task w r @ cb_entries OnFailed (FailedCB (opts task))"
  by (simp add: before_failed_def run_cb_calls calls_after_handler)

lemma calls_after_success_cb:
  "handler_outcome s msg task w = r \<Longrightarrow>
   calls (after_success_cb s msg task w) =
     log_to_handler msg task w r @ cb_entries OnSuccessCB (SuccessCB (opts task))"
  by (simp add: after_success_cb_def run_cb_calls calls_after_handler)

lemma execJob_retry_path:
  "handler_outcome s msg task w = Some err \<Longrightarrow> MaxRetry msg \<noteq> Retried msg \<Longrightarrow>
   execJob e s msg task w = retryJob e s (msg\<lparr>PrevErr := err\<rparr>) (before_retry s msg task w)"
  by (simp add: execJob_handler_error before_retry_def)

lemma execJob_failed_path:
  "handler_outcome s msg task w = Some err \<Longrightarrow> MaxRetry msg = Retried msg \<Longrightarrow>
   execJob e s msg task w = statusFailed e s (msg\<lparr>PrevErr := err\<rparr>) (before_failed s msg task w)"
  by (simp add: execJob_handler_error before_failed_def)

lemma execJob_success_path:
  "handler_outcome s msg task w = None \<Longrightarrow>
   execJob e s msg task w =
     (let w3 = after_success_cb s msg task w
      in case OnSuccess (Job msg) of
           Some j \<Rightarrow>
             (let meta = (DefaultMeta e (Opts j))\<lparr>PrevJobResults := []\<rparr>
              in case enqueueWithMeta e j meta (backend w3) of
                   ((u, Some x), b4) \<Rightarrow>
                     (Some x, \<lparr>calls = calls w3 @ [(CallEnqueueWithMeta j meta u, Some x)],
                               backend = b4\<rparr>)
                 | ((u, None), b4) \<Rightarrow>
                     statusDone e s (msg\<lparr>OnSuccessUUID := u\<rparr>)
                       \<lparr>calls = calls w3 @ [(CallEnqueueWithMeta j meta u, None)],
                        backend = b4\<rparr>)
         | None \<Rightarrow> statusDone e s msg w3)"
  by (auto simp: execJob_handler_ok after_success_cb_def invoke_def Let_def
        split: prod.splits option.splits)

lemma execJob_invokes_handler:
  "\<exists>xs. calls (snd (execJob e s msg task w))
          = log_to_handler msg task w (handler_outcome s msg task w) @ xs"
proof (cases "handler_outcome s msg task w")
  case (Some err)
  show ?thesis
    using retryJob_extends [of e s "msg\<lparr>PrevErr := err\<rparr>"
        "run_cb OnRetrying (RetryingCB (opts task)) (taskCtx_of s msg) (after_handler s msg task w)"]
      statusFailed_extends [of e s "msg\<lparr>PrevErr := err\<rparr>"
        "run_cb OnFailed (FailedCB (opts task)) (taskCtx_of s msg) (after_handler s msg task w)"]
    by (auto simp: execJob_handler_error [OF Some] run_cb_calls calls_after_handler Some)
next
  case None
  let ?w3 = "run_cb OnSuccessCB (SuccessCB (opts task)) (taskCtx_of s msg)
               (after_handler s msg task w)"
  have pre: "calls ?w3 = log_to_handler msg task w None
                           @ cb_entries OnSuccessCB (SuccessCB (opts task))"
    by (simp add: run_cb_calls calls_after_handler None)
  show ?thesis
  proof (cases "OnSuccess (Job msg)")
    case no: None
    from statusDone_extends [of e s msg ?w3] pre show ?thesis
      by (auto simp: execJob_handler_ok [OF None] no None Let_def)
  next
    case (Some j)
    let ?meta = "(DefaultMeta e (Opts j))\<lparr>PrevJobResults := []\<rparr>"
    obtain u re w4 where inv:
      "invoke (\<lambda>(u, r). (CallEnqueueWithMeta j ?meta u, r)) (enqueueWithMeta e j ?meta) ?w3
         = ((u, re), w4)"
      by (metis surj_pair)
    have c4: "calls w4 = log_to_handler msg task w None
                @ cb_entries OnSuccessCB (SuccessCB (opts task))
                @ [(CallEnqueueWithMeta j ?meta u, re)]"
      using invoke_calls [OF inv] pre by simp
    from statusDone_extends [of e s "msg\<lparr>OnSuccessUUID := u\<rparr>" w4] c4 show ?thesis
      by (cases re) (auto simp: execJob_handler_ok [OF None] Some None Let_def inv)
  qed
qed

lemma process_msg_invokes_handler:
  assumes "unmarshal e work = Inr msg"
      and "getHandler s (Task (Job msg)) = Inr task"
      and "fst (statusProcessing e msg w) = None"
  shows "list_ex is_handler_call (new_calls w (process_msg e s work w))"
proof -
  obtain w1 where sp: "statusProcessing e msg w = (None, w1)"
    using assms(3) by (cases "statusProcessing e msg w") simp
  have pm: "process_msg e s work w = snd (execJob e s msg task w1)"
    using assms(1,2) sp by (simp add: process_msg_def)
  obtain xs where "calls (snd (execJob e s msg task w1))
          = log_to_handler msg task w1 (handler_outcome s msg task w1) @ xs"
    using execJob_invokes_handler by blast
  with statusProcessing_calls [OF sp] pm show ?thesis
    by (simp add: new_calls_def log_to_handler_def is_handler_call_def)
qed

subsection \<open>Running the in-memory instance\<close>

text \<open>The definitions to unfold when a run is evaluated on the in-memory instance.\<close>

lemmas run_defs = execJob_def retryJob_def statusRetrying_def statusProcessing_def
  statusDone_def statusFailed_def run_handler_def run_cb_def invoke_def taskCtx_of_def Let_def
  handler_outcome_def

lemmas mem_defs = failing_task_def ok_task_def no_callbacks_def mem_env_def mem_server_def
  mem_broker_def mem_results_def world0_def mem_init_def sum_msg_def sum_job_def

lemmas mem_defs2 = chain_msg_def broker_down_world_def index_down_world_def
  store_down_world_def

lemmas status_defs = StatusRetrying_def StatusProcessing_def StatusDone_def StatusFailed_def

lemmas wire_defs = wire_env_def no_codec_env_def status_code_def code_status_def StatusStarted_def

subsection \<open>Retry below the bound\<close>

text \<open>
  Claim C1, amended. When the handler returns an error \<open>err\<close> and \<open>retried < maxRetry\<close>,
  the worker stores \<open>err\<close> in \<open>PrevErr\<close> and adds exactly one to \<open>Retried\<close> (the 32-bit
  counter does not wrap). From the world \<open>w3\<close> reached after the \<open>RetryingCB\<close> callback:
  \<^item> if the incremented message does not marshal, the run ends there with that error;
  \<^item> otherwise \<open>setJobMessage\<close> is applied to the store with the incremented message in
    status \<open>retrying\<close>; if it returns an error, the run ends with that error, the
    store is as that call left it and the broker is not called;
  \<^item> if it returns nil, \<open>broker.Enqueue\<close> is applied, to the store as the state write
    left it, with the marshalled message and \<open>msg.Queue\<close>, and its result is the
    result of the run: a failed re-enqueue has the \<open>retrying\<close> write behind it.
  The result and the final world of \<open>execJob\<close> are given in each case, the log and the
  backend both.
\<close>

theorem execJob_retries_below_maxRetry:
  assumes "handler_outcome s msg task w = Some err"
      and "Retried msg < MaxRetry msg"
  shows "let m' = msg\<lparr>PrevErr := err, Retried := Retried msg + 1\<rparr>;
             w3 = before_retry s msg task w;
             wr = m'\<lparr>ProcessedAt := now e (backend w3), Status := StatusRetrying\<rparr>
         in unat (Retried m') = unat (Retried msg) + 1
          \<and> calls w3 = log_to_handler msg task w (Some err)
                         @ cb_entries OnRetrying (RetryingCB (opts task))
          \<and> (case marshal e m' of
                Inl x \<Rightarrow> execJob e s msg task w = (Some x, w3)
              | Inr b \<Rightarrow>
                  (case setJobMessage e wr (backend w3) of
                     (Some x, b1) \<Rightarrow>
                       execJob e s msg task w =
                         (Some x, \<lparr>calls = calls w3 @ [(CallSetJobMessage wr, Some x)],
                                   backend = b1\<rparr>)
                   | (None, b1) \<Rightarrow>
                       (case Enqueue (broker s) b (Queue msg) b1 of
                          (r, b2) \<Rightarrow>
                            execJob e s msg task w =
                              (r, \<lparr>calls = calls w3 @ [(CallSetJobMessage wr, None),
                                       (CallBrokerEnqueue b (Queue msg), r)],
                                   backend = b2\<rparr>))))"
proof -
  have ne: "MaxRetry msg \<noteq> Retried msg"
    using assms(2) by auto
  have inc: "unat (Retried msg + 1) = unat (Retried msg) + 1"
    using assms(2) by (rule word32_inc_exact)
  show ?thesis
    using inc calls_before_retry [OF assms(1)]
    by (simp add: execJob_retry_path [OF assms(1) ne] retryJob_run Let_def
          split: sum.splits prod.splits option.splits)
qed

theorem execJob_retries_below_maxRetry_witness:
  "handler_outcome mem_server sum_msg failing_task world0 = Some ''boom''
   \<and> Retried sum_msg < MaxRetry sum_msg
   \<and> execJob wire_env mem_server sum_msg failing_task world0 =
       (None,
        \<lparr>calls = [(CallHandler ''add'' [3, 4], Some ''boom''),
           (CallSetJobMessage (sum_msg\<lparr>PrevErr := ''boom'', Retried := 1, ProcessedAt := 100,
               Status := ''retrying''\<rparr>), None),
           (CallBrokerEnqueue [1, 2, 7, 0] ''tasqueue:tasks'', None)],
         backend = mem_init\<lparr>
           written := [sum_msg\<lparr>PrevErr := ''boom'', Retried := 1, ProcessedAt := 100,
               Status := ''retrying''\<rparr>],
           queued := [(''tasqueue:tasks'', [1, 2, 7, 0])]\<rparr>\<rparr>)
   \<and> handler_outcome mem_server sum_msg failing_task broker_down_world = Some ''boom''
   \<and> execJob wire_env mem_server sum_msg failing_task broker_down_world =
       (Some ''broker down'',
        \<lparr>calls = [(CallHandler ''add'' [3, 4], Some ''boom''),
           (CallSetJobMessage (sum_msg\<lparr>PrevErr := ''boom'', Retried := 1, ProcessedAt := 100,
               Status := ''retrying''\<rparr>), None),
           (CallBrokerEnqueue [1, 2, 7, 0] ''tasqueue:tasks'', Some ''broker down'')],
         backend = mem_init\<lparr>
           written := [sum_msg\<lparr>PrevErr := ''boom'', Retried := 1, ProcessedAt := 100,
               Status := ''retrying''\<rparr>],
           broker_down := True\<rparr>\<rparr>)"
proof -
  have h1: "handler_outcome mem_server sum_msg failing_task world0 = Some ''boom''"
    by (simp add: run_defs failing_task_def no_callbacks_def)
  have h1': "handler_outcome mem_server sum_msg failing_task broker_down_world = Some ''boom''"
    by (simp add: run_defs failing_task_def no_callbacks_def)
  have h2: "Retried sum_msg < MaxRetry sum_msg"
    by (simp add: sum_msg_def)
  have ev: "execJob wire_env mem_server sum_msg failing_task world0 =
       (None,
        \<lparr>calls = [(CallHandler ''add'' [3, 4], Some ''boom''),
           (CallSetJobMessage (sum_msg\<lparr>PrevErr := ''boom'', Retried := 1, ProcessedAt := 100,
               Status := ''retrying''\<rparr>), None),
           (CallBrokerEnqueue [1, 2, 7, 0] ''tasqueue:tasks'', None)],
         backend = mem_init\<lparr>
           written := [sum_msg\<lparr>PrevErr := ''boom'', Retried := 1, ProcessedAt := 100,
               Status := ''retrying''\<rparr>],
           queued := [(''tasqueue:tasks'', [1, 2, 7, 0])]\<rparr>\<rparr>)"
    by (simp add: run_defs mem_defs wire_defs status_defs)
  have ev': "execJob wire_env mem_server sum_msg failing_task broker_down_world =
       (Some ''broker down'',
        \<lparr>calls = [(CallHandler ''add'' [3, 4], Some ''boom''),
           (CallSetJobMessage (sum_msg\<lparr>PrevErr := ''boom'', Retried := 1, ProcessedAt := 100,
               Status := ''retrying''\<rparr>), None),
           (CallBrokerEnqueue [1, 2, 7, 0] ''tasqueue:tasks'', Some ''broker down'')],
         backend = mem_init\<lparr>
           written := [sum_msg\<lparr>PrevErr := ''boom'', Retried := 1, ProcessedAt := 100,
               Status := ''retrying''\<rparr>],
           broker_down := True\<rparr>\<rparr>)"
    by (simp add: run_defs mem_defs mem_defs2 wire_defs status_defs)
  from execJob_retries_below_maxRetry [OF h1 h2, of wire_env]
    execJob_retries_below_maxRetry [OF h1' h2, of wire_env]
  show ?thesis
    by (intro conjI h1 h2 ev h1' ev')
qed

text \<open>
  Without the two provisos the statement fails. With the state store down, a handler
  error below the bound ends with the store's error: nothing is written and nothing is
  on the broker's queue. With a codec that refuses the message, the run ends before any
  call.
\<close>

theorem execJob_retry_without_enqueue:
  "handler_outcome mem_server sum_msg failing_task store_down_world = Some ''boom''
   \<and> Retried sum_msg < MaxRetry sum_msg
   \<and> execJob wire_env mem_server sum_msg failing_task store_down_world =
       (Some ''store down'',
        \<lparr>calls = [(CallHandler ''add'' [3, 4], Some ''boom''),
           (CallSetJobMessage (sum_msg\<lparr>PrevErr := ''boom'', Retried := 1, ProcessedAt := 100,
               Status := ''retrying''\<rparr>), Some ''store down'')],
         backend = mem_init\<lparr>store_down := True\<rparr>\<rparr>)
   \<and> written (mem_init\<lparr>store_down := True\<rparr>) = []
   \<and> queued (mem_init\<lparr>store_down := True\<rparr>) = []
   \<and> handler_outcome mem_server sum_msg failing_task world0 = Some ''boom''
   \<and> execJob no_codec_env mem_server sum_msg failing_task world0 =
       (Some ''msgpack: Encode(unsupported)'',
        \<lparr>calls = [(CallHandler ''add'' [3, 4], Some ''boom'')], backend = mem_init\<rparr>)
   \<and> written mem_init = []
   \<and> queued mem_init = []"
  by (simp add: run_defs mem_defs mem_defs2 wire_defs status_defs)

subsection \<open>Fetching results\<close>

text \<open>
  Claim C5. \<open>GetResult\<close> is meant to return the blobs the handler saved. It passes the
  destination slice to \<open>msgpack.Unmarshal\<close> by value (the worker's own decode passes
  \<open>&msg\<close>), so the variable it returns is still the nil slice it declared: whatever the
  store holds under the key and whatever the codec does, \<open>GetResult\<close> never returns a
  non-empty sequence. On the in-memory store that holds the MessagePack encoding of the
  one-blob list \<open>["7"]\<close> under the key of the job, with the codec's refusal of a
  destination that is not a pointer, \<open>GetResult\<close> returns that error.
\<close>

theorem GetResult_never_returns_blobs:
  "fst (GetResult e s uuid w) \<noteq> Inr (x # xs)
   \<and> fst (GetResult mem_env mem_server ''uuid-1''
          (world0\<lparr>backend := mem_init\<lparr>artifacts :=
              [(''result:uuid-1'', [0x91, 0xC4, 0x01, 0x37])]\<rparr>\<rparr>))
       = Inl ''msgpack: Decode(non-pointer [][]uint8)''"
proof
  show "fst (GetResult e s uuid w) \<noteq> Inr (x # xs)"
    by (auto simp: GetResult_def Let_def invoke_def split: prod.splits sum.splits option.splits)
next
  show "fst (GetResult mem_env mem_server ''uuid-1''
          (world0\<lparr>backend := mem_init\<lparr>artifacts :=
              [(''result:uuid-1'', [0x91, 0xC4, 0x01, 0x37])]\<rparr>\<rparr>))
       = Inl ''msgpack: Decode(non-pointer [][]uint8)''"
    by (simp add: GetResult_def Let_def invoke_def mem_env_def mem_server_def mem_results_def
          world0_def mem_init_def)
qed

subsection \<open>Registration\<close>

text \<open>
  Claim C7. After \<open>RegisterTask(name, fn, opts)\<close>, looking \<open>name\<close> up succeeds and
  returns a task with that name and handler, whose concurrency is \<open>opts.Concurrency\<close>
  when that is positive and 1 otherwise, and whose queue is \<open>opts.Queue\<close> when that
  is not empty and \<open>DefaultQueue\<close> otherwise; the callbacks are those given.
  Registering a name again gives the server that the second registration alone gives:
  the prior entry is replaced. Other names are not touched.
\<close>

theorem RegisterTask_then_getHandler:
  "(\<exists>t. getHandler (RegisterTask s n fn os) n = Inr t
        \<and> name t = n \<and> handler t = fn
        \<and> Concurrency (opts t) = (if 0 < Concurrency os then Concurrency os else 1)
        \<and> opts_Queue (opts t) = (if opts_Queue os \<noteq> [] then opts_Queue os else DefaultQueue)
        \<and> SuccessCB (opts t) = SuccessCB os \<and> ProcessingCB (opts t) = ProcessingCB os
        \<and> RetryingCB (opts t) = RetryingCB os \<and> FailedCB (opts t) = FailedCB os)
   \<and> RegisterTask (RegisterTask s n fn1 os1) n fn os = RegisterTask s n fn os
   \<and> (n' \<noteq> n \<longrightarrow> getHandler (RegisterTask s n fn os) n' = getHandler s n')"
  by (auto simp: RegisterTask_def registerHandler_def getHandler_def Let_def defaultConcurrency_def
        word_gt_0)

theorem RegisterTask_then_getHandler_witness:
  "''mul'' \<noteq> ''add''
   \<and> (\<exists>t. getHandler (RegisterTask mem_server ''add'' (handler ok_task)
                (no_callbacks\<lparr>Concurrency := 0, opts_Queue := []\<rparr>)) ''add'' = Inr t
          \<and> Concurrency (opts t) = 1 \<and> opts_Queue (opts t) = ''tasqueue:tasks'')
   \<and> getHandler (RegisterTask mem_server ''add'' (handler ok_task)
          (no_callbacks\<lparr>Concurrency := 0, opts_Queue := []\<rparr>)) ''mul''
       = getHandler mem_server ''mul''"
  using RegisterTask_then_getHandler [where s = mem_server and n = "''add''"
      and fn = "handler ok_task" and os = "no_callbacks\<lparr>Concurrency := 0, opts_Queue := []\<rparr>"
      and n' = "''mul''"]
  by (auto simp: no_callbacks_def DefaultQueue_def)

subsection \<open>Construction of the server\<close>

text \<open>
  Claim C8. \<open>NewServer\<close> returns an error exactly when the broker or the results store
  is nil. Otherwise it returns a server that holds the broker, the results store and
  the tracer provider it was given, an empty registry, the scheduler as \<open>cron.New()\<close>
  constructs it (not running), and as logger the library's default when the given
  logger's level is zero (in particular when none was supplied), the given one otherwise.
\<close>

theorem NewServer_validates:
  "((\<exists>err. NewServer lg o' = Inl err) \<longleftrightarrow> (so_Broker o' = None \<or> so_Results o' = None))
   \<and> (so_Broker o' = Some br \<and> so_Results o' = Some rs \<longrightarrow>
        (\<exists>s. NewServer lg o' = Inr s \<and> broker s = br \<and> results s = rs
           \<and> tasks s = Map.empty \<and> cron s = cron_New \<and> \<not> running (cron s)
           \<and> traceProv s = so_TraceProvider o'
           \<and> log s = (if Level (so_Logger o') = 0 then lg else so_Logger o')))"
  by (auto simp: NewServer_def Let_def cron_New_def split: option.splits)

theorem NewServer_validates_witness:
  "so_Broker \<lparr>so_Broker = Some mem_broker, so_Results = Some mem_results,
       so_Logger = \<lparr>Level = 0\<rparr>, so_TraceProvider = None\<rparr> = Some mem_broker
   \<and> so_Results \<lparr>so_Broker = Some mem_broker, so_Results = Some mem_results,
       so_Logger = \<lparr>Level = 0\<rparr>, so_TraceProvider = None\<rparr> = Some mem_results
   \<and> NewServer \<lparr>Level = 2\<rparr> \<lparr>so_Broker = Some mem_broker, so_Results = Some mem_results,
       so_Logger = \<lparr>Level = 0\<rparr>, so_TraceProvider = None\<rparr> = Inr mem_server
   \<and> NewServer \<lparr>Level = 2\<rparr> \<lparr>so_Broker = None, so_Results = Some mem_results,
       so_Logger = \<lparr>Level = 0\<rparr>, so_TraceProvider = None\<rparr> = Inl ''broker missing in options''"
  using NewServer_validates [where lg = "\<lparr>Level = 2\<rparr>" and br = mem_broker and rs = mem_results
      and o' = "\<lparr>so_Broker = Some mem_broker, so_Results = Some mem_results,
       so_Logger = \<lparr>Level = 0\<rparr>, so_TraceProvider = None\<rparr>"]
  by (auto simp: mem_server_def NewServer_def)

subsection \<open>Failure at the bound\<close>

text \<open>
  Claim C2, amended. When the handler returns an error \<open>err\<close> and \<open>retried\<close> equals
  \<open>maxRetry\<close>, the worker makes no call to \<open>broker.Enqueue\<close>. From the world \<open>w3\<close>
  reached after the \<open>FailedCB\<close> callback, \<open>SetFailed\<close> is applied to the store with the
  uuid. If it returns an error, the run ends with that error and the \<open>failed\<close> state is
  not written. If it returns nil, \<open>setJobMessage\<close> is applied, to the store as the index
  write left it, with the message in status \<open>failed\<close> and \<open>PrevErr = err\<close> (the counters
  as delivered), and its result is the result of the run.
\<close>

theorem execJob_fails_at_maxRetry:
  assumes "handler_outcome s msg task w = Some err"
      and "Retried msg = MaxRetry msg"
  shows "let w3 = before_failed s msg task w;
             st = msg\<lparr>PrevErr := err, ProcessedAt := now e (backend w3), Status := StatusFailed\<rparr>
         in calls w3 = log_to_handler msg task w (Some err)
                         @ cb_entries OnFailed (FailedCB (opts task))
          \<and> \<not> list_ex is_broker_enqueue (new_calls w (snd (execJob e s msg task w)))
          \<and> (case SetFailed (results s) (UUID msg) (backend w3) of
                (Some x, b1) \<Rightarrow>
                  execJob e s msg task w =
                    (Some x, \<lparr>calls = calls w3 @ [(CallSetFailed (UUID msg), Some x)],
                              backend = b1\<rparr>)
              | (None, b1) \<Rightarrow>
                  (case setJobMessage e st b1 of
                     (r, b2) \<Rightarrow>
                       execJob e s msg task w =
                         (r, \<lparr>calls = calls w3 @ [(CallSetFailed (UUID msg), None),
                                  (CallSetJobMessage st, r)],
                              backend = b2\<rparr>)))"
proof -
  have eq: "MaxRetry msg = Retried msg"
    using assms(2) by simp
  show ?thesis
    using calls_before_failed [OF assms(1)]
    by (simp add: execJob_failed_path [OF assms(1) eq] statusFailed_run Let_def
          new_calls_def log_to_handler_def is_broker_enqueue_def
          split: sum.splits prod.splits option.splits)
qed

theorem execJob_fails_at_maxRetry_witness:
  "handler_outcome mem_server (sum_msg\<lparr>Retried := 2\<rparr>) failing_task world0 = Some ''boom''
   \<and> Retried (sum_msg\<lparr>Retried := 2\<rparr>) = MaxRetry (sum_msg\<lparr>Retried := 2\<rparr>)
   \<and> execJob mem_env mem_server (sum_msg\<lparr>Retried := 2\<rparr>) failing_task world0 =
       (None,
        \<lparr>calls = [(CallHandler ''add'' [3, 4], Some ''boom''),
           (CallSetFailed ''uuid-1'', None),
           (CallSetJobMessage (sum_msg\<lparr>Retried := 2, PrevErr := ''boom'', ProcessedAt := 100,
               Status := ''failed''\<rparr>), None)],
         backend = mem_init\<lparr>
           written := [sum_msg\<lparr>Retried := 2, PrevErr := ''boom'', ProcessedAt := 100,
               Status := ''failed''\<rparr>],
           failed_idx := [''uuid-1'']\<rparr>\<rparr>)
   \<and> queued (mem_init\<lparr>
           written := [sum_msg\<lparr>Retried := 2, PrevErr := ''boom'', ProcessedAt := 100,
               Status := ''failed''\<rparr>],
           failed_idx := [''uuid-1'']\<rparr>) = []"
proof -
  have h1: "handler_outcome mem_server (sum_msg\<lparr>Retried := 2\<rparr>) failing_task world0
              = Some ''boom''"
    by (simp add: run_defs failing_task_def no_callbacks_def)
  have h2: "Retried (sum_msg\<lparr>Retried := 2\<rparr>) = MaxRetry (sum_msg\<lparr>Retried := 2\<rparr>)"
    by (simp add: sum_msg_def)
  have ev: "execJob mem_env mem_server (sum_msg\<lparr>Retried := 2\<rparr>) failing_task world0 =
       (None,
        \<lparr>calls = [(CallHandler ''add'' [3, 4], Some ''boom''),
           (CallSetFailed ''uuid-1'', None),
           (CallSetJobMessage (sum_msg\<lparr>Retried := 2, PrevErr := ''boom'', ProcessedAt := 100,
               Status := ''failed''\<rparr>), None)],
         backend = mem_init\<lparr>
           written := [sum_msg\<lparr>Retried := 2, PrevErr := ''boom'', ProcessedAt := 100,
               Status := ''failed''\<rparr>],
           failed_idx := [''uuid-1'']\<rparr>\<rparr>)"
    by (simp add: run_defs mem_defs status_defs)
  have q: "queued (mem_init\<lparr>
           written := [sum_msg\<lparr>Retried := 2, PrevErr := ''boom'', ProcessedAt := 100,
               Status := ''failed''\<rparr>],
           failed_idx := [''uuid-1'']\<rparr>) = []"
    by (simp add: mem_init_def)
  from execJob_fails_at_maxRetry [OF h1 h2, of mem_env]
  show ?thesis
    by (intro conjI h1 h2 ev q)
qed

text \<open>
  Without the proviso on the index write the statement fails: with the indexes down, a
  handler error at the bound ends with the index's error, and neither the failed index
  nor the state store holds anything.
\<close>

theorem execJob_failed_state_not_written:
  "handler_outcome mem_server (sum_msg\<lparr>Retried := 2\<rparr>) failing_task index_down_world
     = Some ''boom''
   \<and> Retried (sum_msg\<lparr>Retried := 2\<rparr>) = MaxRetry (sum_msg\<lparr>Retried := 2\<rparr>)
   \<and> execJob mem_env mem_server (sum_msg\<lparr>Retried := 2\<rparr>) failing_task index_down_world =
       (Some ''index down'',
        \<lparr>calls = [(CallHandler ''add'' [3, 4], Some ''boom''),
           (CallSetFailed ''uuid-1'', Some ''index down'')],
         backend = mem_init\<lparr>index_down := True\<rparr>\<rparr>)
   \<and> written (mem_init\<lparr>index_down := True\<rparr>) = []
   \<and> failed_idx (mem_init\<lparr>index_down := True\<rparr>) = []"
  by (simp add: run_defs mem_defs mem_defs2 status_defs)

subsection \<open>The decision between retry and failure\<close>

text \<open>
  Claim C9, amended. The decision tests \<open>MaxRetry \<noteq> Retried\<close> only. Whenever the two
  differ, also when \<open>retried\<close> is above \<open>maxRetry\<close>, a handler error takes the retry
  path and never the failure path: the run makes no write to the failed index and no
  \<open>failed\<close> state write, and its result and final world are those of the retry, with
  \<open>PrevErr = err\<close> and the counter incremented (as a 32-bit unsigned integer). The
  \<open>retrying\<close> state is written when the incremented message marshals, and the message is
  handed to the broker on \<open>msg.Queue\<close> when that write returns nil.
\<close>

theorem execJob_retries_unless_equal:
  assumes "handler_outcome s msg task w = Some err"
      and "Retried msg \<noteq> MaxRetry msg"
  shows "let m' = msg\<lparr>PrevErr := err, Retried := Retried msg + 1\<rparr>;
             w3 = before_retry s msg task w;
             wr = m'\<lparr>ProcessedAt := now e (backend w3), Status := StatusRetrying\<rparr>
         in calls w3 = log_to_handler msg task w (Some err)
                         @ cb_entries OnRetrying (RetryingCB (opts task))
          \<and> \<not> list_ex is_failed_write (new_calls w (snd (execJob e s msg task w)))
          \<and> (case marshal e m' of
                Inl x \<Rightarrow> execJob e s msg task w = (Some x, w3)
              | Inr b \<Rightarrow>
                  (case setJobMessage e wr (backend w3) of
                     (Some x, b1) \<Rightarrow>
                       execJob e s msg task w =
                         (Some x, \<lparr>calls = calls w3 @ [(CallSetJobMessage wr, Some x)],
                                   backend = b1\<rparr>)
                   | (None, b1) \<Rightarrow>
                       (case Enqueue (broker s) b (Queue msg) b1 of
                          (r, b2) \<Rightarrow>
                            execJob e s msg task w =
                              (r, \<lparr>calls = calls w3 @ [(CallSetJobMessage wr, None),
                                       (CallBrokerEnqueue b (Queue msg), r)],
                                   backend = b2\<rparr>))))"
proof -
  have ne: "MaxRetry msg \<noteq> Retried msg"
    using assms(2) by auto
  have st: "StatusRetrying \<noteq> StatusFailed"
    by (simp add: StatusRetrying_def StatusFailed_def)
  show ?thesis
    using st calls_before_retry [OF assms(1)]
    by (simp add: execJob_retry_path [OF assms(1) ne] retryJob_run Let_def
          new_calls_def log_to_handler_def is_failed_write_def
          split: sum.splits prod.splits option.splits)
qed

theorem execJob_retries_unless_equal_witness:
  "handler_outcome mem_server (sum_msg\<lparr>Retried := 5\<rparr>) failing_task world0 = Some ''boom''
   \<and> Retried (sum_msg\<lparr>Retried := 5\<rparr>) \<noteq> MaxRetry (sum_msg\<lparr>Retried := 5\<rparr>)
   \<and> MaxRetry (sum_msg\<lparr>Retried := 5\<rparr>) < Retried (sum_msg\<lparr>Retried := 5\<rparr>)
   \<and> execJob wire_env mem_server (sum_msg\<lparr>Retried := 5\<rparr>) failing_task world0 =
       (None,
        \<lparr>calls = [(CallHandler ''add'' [3, 4], Some ''boom''),
           (CallSetJobMessage (sum_msg\<lparr>PrevErr := ''boom'', Retried := 6, ProcessedAt := 100,
               Status := ''retrying''\<rparr>), None),
           (CallBrokerEnqueue [6, 2, 7, 0] ''tasqueue:tasks'', None)],
         backend = mem_init\<lparr>
           written := [sum_msg\<lparr>PrevErr := ''boom'', Retried := 6, ProcessedAt := 100,
               Status := ''retrying''\<rparr>],
           queued := [(''tasqueue:tasks'', [6, 2, 7, 0])]\<rparr>\<rparr>)
   \<and> failed_idx (mem_init\<lparr>
           written := [sum_msg\<lparr>PrevErr := ''boom'', Retried := 6, ProcessedAt := 100,
               Status := ''retrying''\<rparr>],
           queued := [(''tasqueue:tasks'', [6, 2, 7, 0])]\<rparr>) = []"
proof -
  have h1: "handler_outcome mem_server (sum_msg\<lparr>Retried := 5\<rparr>) failing_task world0
              = Some ''boom''"
    by (simp add: run_defs failing_task_def no_callbacks_def)
  have h2: "Retried (sum_msg\<lparr>Retried := 5\<rparr>) \<noteq> MaxRetry (sum_msg\<lparr>Retried := 5\<rparr>)"
    by (simp add: sum_msg_def)
  have h3: "MaxRetry (sum_msg\<lparr>Retried := 5\<rparr>) < Retried (sum_msg\<lparr>Retried := 5\<rparr>)"
    by (simp add: sum_msg_def)
  have ev: "execJob wire_env mem_server (sum_msg\<lparr>Retried := 5\<rparr>) failing_task world0 =
       (None,
        \<lparr>calls = [(CallHandler ''add'' [3, 4], Some ''boom''),
           (CallSetJobMessage (sum_msg\<lparr>PrevErr := ''boom'', Retried := 6, ProcessedAt := 100,
               Status := ''retrying''\<rparr>), None),
           (CallBrokerEnqueue [6, 2, 7, 0] ''tasqueue:tasks'', None)],
         backend = mem_init\<lparr>
           written := [sum_msg\<lparr>PrevErr := ''boom'', Retried := 6, ProcessedAt := 100,
               Status := ''retrying''\<rparr>],
           queued := [(''tasqueue:tasks'', [6, 2, 7, 0])]\<rparr>\<rparr>)"
    by (simp add: run_defs mem_defs wire_defs status_defs)
  have fi: "failed_idx (mem_init\<lparr>
           written := [sum_msg\<lparr>PrevErr := ''boom'', Retried := 6, ProcessedAt := 100,
               Status := ''retrying''\<rparr>],
           queued := [(''tasqueue:tasks'', [6, 2, 7, 0])]\<rparr>) = []"
    by (simp add: mem_init_def)
  from execJob_retries_unless_equal [OF h1 h2, of wire_env]
  show ?thesis
    by (intro conjI h1 h2 h3 ev fi)
qed

text \<open>
  Without the provisos the statement fails: with \<open>retried = 5\<close> above \<open>maxRetry = 2\<close> and
  the state store down, or a codec that refuses the message, the handler's error leads
  to no re-enqueue.
\<close>

theorem execJob_unequal_without_enqueue:
  "handler_outcome mem_server (sum_msg\<lparr>Retried := 5\<rparr>) failing_task store_down_world
     = Some ''boom''
   \<and> Retried (sum_msg\<lparr>Retried := 5\<rparr>) \<noteq> MaxRetry (sum_msg\<lparr>Retried := 5\<rparr>)
   \<and> execJob wire_env mem_server (sum_msg\<lparr>Retried := 5\<rparr>) failing_task store_down_world =
       (Some ''store down'',
        \<lparr>calls = [(CallHandler ''add'' [3, 4], Some ''boom''),
           (CallSetJobMessage (sum_msg\<lparr>PrevErr := ''boom'', Retried := 6, ProcessedAt := 100,
               Status := ''retrying''\<rparr>), Some ''store down'')],
         backend = mem_init\<lparr>store_down := True\<rparr>\<rparr>)
   \<and> queued (mem_init\<lparr>store_down := True\<rparr>) = []
   \<and> execJob no_codec_env mem_server (sum_msg\<lparr>Retried := 5\<rparr>) failing_task world0 =
       (Some ''msgpack: Encode(unsupported)'',
        \<lparr>calls = [(CallHandler ''add'' [3, 4], Some ''boom'')], backend = mem_init\<rparr>)
   \<and> queued mem_init = []"
  by (simp add: run_defs mem_defs mem_defs2 wire_defs status_defs)

subsection \<open>Chain continuation\<close>

text \<open>
  Claim C3. When the handler returns nil and the job has an \<open>OnSuccess\<close> successor \<open>j\<close>,
  then from the world \<open>w3\<close> reached after the \<open>SuccessCB\<close> callback \<open>enqueueWithMeta\<close> is
  applied first, on \<open>j\<close> and its default meta. If it returns an error, the run ends with
  that error in the world that call left: \<open>statusDone\<close> does not run, so neither
  \<open>SetSuccess\<close> nor \<open>setJobMessage\<close> is applied. If it returns the uuid \<open>u\<close> and nil,
  \<open>SetSuccess\<close> is applied to the store as the enqueue left it and then, when it returns
  nil, \<open>setJobMessage\<close> with the parent in status \<open>successful\<close> and \<open>OnSuccessUUID = u\<close>,
  the uuid the enqueue returned.
\<close>

theorem execJob_successor_before_done:
  assumes "handler_outcome s msg task w = None"
      and "OnSuccess (Job msg) = Some j"
  shows "let w3 = after_success_cb s msg task w;
             meta = (DefaultMeta e (Opts j))\<lparr>PrevJobResults := []\<rparr>
         in calls w3 = log_to_handler msg task w None
                         @ cb_entries OnSuccessCB (SuccessCB (opts task))
          \<and> (case enqueueWithMeta e j meta (backend w3) of
                ((u, Some x), b4) \<Rightarrow>
                  execJob e s msg task w =
                    (Some x, \<lparr>calls = calls w3 @ [(CallEnqueueWithMeta j meta u, Some x)],
                              backend = b4\<rparr>)
              | ((u, None), b4) \<Rightarrow>
                  (let t' = msg\<lparr>OnSuccessUUID := u, ProcessedAt := now e b4,
                                 Status := StatusDone\<rparr>
                   in case SetSuccess (results s) (UUID msg) b4 of
                        (Some x, b5) \<Rightarrow>
                          execJob e s msg task w =
                            (Some x, \<lparr>calls = calls w3 @ [(CallEnqueueWithMeta j meta u, None),
                                         (CallSetSuccess (UUID msg), Some x)],
                                      backend = b5\<rparr>)
                      | (None, b5) \<Rightarrow>
                          (case setJobMessage e t' b5 of
                             (r, b6) \<Rightarrow>
                               execJob e s msg task w =
                                 (r, \<lparr>calls = calls w3 @ [(CallEnqueueWithMeta j meta u, None),
                                          (CallSetSuccess (UUID msg), None),
                                          (CallSetJobMessage t', r)],
                                      backend = b6\<rparr>))))"
  using calls_after_success_cb [OF assms(1)] assms(2)
  by (simp add: execJob_success_path [OF assms(1)] statusDone_run Let_def
        split: sum.splits prod.splits option.splits)

theorem execJob_successor_before_done_witness:
  "handler_outcome mem_server chain_msg ok_task broker_down_world = None
   \<and> OnSuccess (Job chain_msg) = Some sum_job
   \<and> execJob mem_env mem_server chain_msg ok_task broker_down_world =
       (Some ''broker down'',
        \<lparr>calls = [(CallHandler ''add'' [3, 4], None),
           (CallEnqueueWithMeta sum_job
              (DefaultMeta mem_env (Opts sum_job)\<lparr>PrevJobResults := []\<rparr>) [],
            Some ''broker down'')],
         backend = mem_init\<lparr>broker_down := True\<rparr>\<rparr>)
   \<and> written (mem_init\<lparr>broker_down := True\<rparr>) = []
   \<and> success_idx (mem_init\<lparr>broker_down := True\<rparr>) = []
   \<and> handler_outcome mem_server chain_msg ok_task world0 = None
   \<and> execJob mem_env mem_server chain_msg ok_task world0 =
       (None,
        \<lparr>calls = [(CallHandler ''add'' [3, 4], None),
           (CallEnqueueWithMeta sum_job
              (DefaultMeta mem_env (Opts sum_job)\<lparr>PrevJobResults := []\<rparr>) ''uuid-2'', None),
           (CallSetSuccess ''uuid-1'', None),
           (CallSetJobMessage (chain_msg\<lparr>OnSuccessUUID := ''uuid-2'', ProcessedAt := 100,
               Status := ''successful''\<rparr>), None)],
         backend = mem_init\<lparr>
           written := [chain_msg\<lparr>OnSuccessUUID := ''uuid-2'', ProcessedAt := 100,
               Status := ''successful''\<rparr>],
           success_idx := [''uuid-1''],
           queued := [([], [])]\<rparr>\<rparr>)"
proof -
  have h1: "handler_outcome mem_server chain_msg ok_task broker_down_world = None"
    by (simp add: run_defs ok_task_def no_callbacks_def)
  have h1': "handler_outcome mem_server chain_msg ok_task world0 = None"
    by (simp add: run_defs ok_task_def no_callbacks_def)
  have h2: "OnSuccess (Job chain_msg) = Some sum_job"
    by (simp add: chain_msg_def sum_job_def)
  have ev: "execJob mem_env mem_server chain_msg ok_task broker_down_world =
       (Some ''broker down'',
        \<lparr>calls = [(CallHandler ''add'' [3, 4], None),
           (CallEnqueueWithMeta sum_job
              (DefaultMeta mem_env (Opts sum_job)\<lparr>PrevJobResults := []\<rparr>) [],
            Some ''broker down'')],
         backend = mem_init\<lparr>broker_down := True\<rparr>\<rparr>)"
    by (simp add: run_defs mem_defs mem_defs2 status_defs)
  have nw: "written (mem_init\<lparr>broker_down := True\<rparr>) = []"
    by (simp add: mem_init_def)
  have ns: "success_idx (mem_init\<lparr>broker_down := True\<rparr>) = []"
    by (simp add: mem_init_def)
  have ev2: "execJob mem_env mem_server chain_msg ok_task world0 =
       (None,
        \<lparr>calls = [(CallHandler ''add'' [3, 4], None),
           (CallEnqueueWithMeta sum_job
              (DefaultMeta mem_env (Opts sum_job)\<lparr>PrevJobResults := []\<rparr>) ''uuid-2'', None),
           (CallSetSuccess ''uuid-1'', None),
           (CallSetJobMessage (chain_msg\<lparr>OnSuccessUUID := ''uuid-2'', ProcessedAt := 100,
               Status := ''successful''\<rparr>), None)],
         backend = mem_init\<lparr>
           written := [chain_msg\<lparr>OnSuccessUUID := ''uuid-2'', ProcessedAt := 100,
               Status := ''successful''\<rparr>],
           success_idx := [''uuid-1''],
           queued := [([], [])]\<rparr>\<rparr>)"
    by (simp add: run_defs mem_defs mem_defs2 status_defs)
  from execJob_successor_before_done [OF h1 h2, of mem_env]
    execJob_successor_before_done [OF h1' h2, of mem_env]
  show ?thesis
    by (intro conjI h1 h2 ev nw ns h1' ev2)
qed

subsection \<open>Index before state\<close>

text \<open>
  Claim C4. \<open>statusDone\<close> applies \<open>SetSuccess\<close> to the store first. If it returns an
  error, the result is that error and the final store is the one \<open>SetSuccess\<close> left:
  \<open>setJobMessage\<close> is not applied. If it returns nil, \<open>setJobMessage\<close> is applied to the
  store as the index write left it, with the message in status \<open>successful\<close>, and its
  result is the result. \<open>statusFailed\<close> does the same with \<open>SetFailed\<close> and the status
  \<open>failed\<close>. So the state message is only ever written to a store in which the index
  write of the same uuid has returned nil.
\<close>

theorem index_written_before_state:
  "(let t' = t\<lparr>ProcessedAt := now e (backend w), Status := StatusDone\<rparr>
    in case SetSuccess (results s) (UUID t) (backend w) of
         (Some x, b1) \<Rightarrow>
           statusDone e s t w =
             (Some x, \<lparr>calls = calls w @ [(CallSetSuccess (UUID t), Some x)], backend = b1\<rparr>)
       | (None, b1) \<Rightarrow>
           (case setJobMessage e t' b1 of
              (r, b2) \<Rightarrow>
                statusDone e s t w =
                  (r, \<lparr>calls = calls w @ [(CallSetSuccess (UUID t), None),
                                           (CallSetJobMessage t', r)],
                       backend = b2\<rparr>)))
   \<and> (let t' = t\<lparr>ProcessedAt := now e (backend w), Status := StatusFailed\<rparr>
    in case SetFailed (results s) (UUID t) (backend w) of
         (Some x, b1) \<Rightarrow>
           statusFailed e s t w =
             (Some x, \<lparr>calls = calls w @ [(CallSetFailed (UUID t), Some x)], backend = b1\<rparr>)
       | (None, b1) \<Rightarrow>
           (case setJobMessage e t' b1 of
              (r, b2) \<Rightarrow>
                statusFailed e s t w =
                  (r, \<lparr>calls = calls w @ [(CallSetFailed (UUID t), None),
                                           (CallSetJobMessage t', r)],
                       backend = b2\<rparr>)))"
  by (simp add: statusDone_run statusFailed_run Let_def split: prod.splits option.splits)

theorem index_written_before_state_witness:
  "statusDone mem_env mem_server sum_msg index_down_world =
     (Some ''index down'',
      \<lparr>calls = [(CallSetSuccess ''uuid-1'', Some ''index down'')],
       backend = mem_init\<lparr>index_down := True\<rparr>\<rparr>)
   \<and> statusFailed mem_env mem_server sum_msg index_down_world =
     (Some ''index down'',
      \<lparr>calls = [(CallSetFailed ''uuid-1'', Some ''index down'')],
       backend = mem_init\<lparr>index_down := True\<rparr>\<rparr>)
   \<and> written (mem_init\<lparr>index_down := True\<rparr>) = []
   \<and> statusDone mem_env mem_server sum_msg world0 =
     (None,
      \<lparr>calls = [(CallSetSuccess ''uuid-1'', None),
         (CallSetJobMessage (sum_msg\<lparr>ProcessedAt := 100, Status := ''successful''\<rparr>), None)],
       backend = mem_init\<lparr>
         written := [sum_msg\<lparr>ProcessedAt := 100, Status := ''successful''\<rparr>],
         success_idx := [''uuid-1'']\<rparr>\<rparr>)
   \<and> statusFailed mem_env mem_server sum_msg world0 =
     (None,
      \<lparr>calls = [(CallSetFailed ''uuid-1'', None),
         (CallSetJobMessage (sum_msg\<lparr>ProcessedAt := 100, Status := ''failed''\<rparr>), None)],
       backend = mem_init\<lparr>
         written := [sum_msg\<lparr>ProcessedAt := 100, Status := ''failed''\<rparr>],
         failed_idx := [''uuid-1'']\<rparr>\<rparr>)
   \<and> statusDone mem_env mem_server sum_msg store_down_world =
     (Some ''store down'',
      \<lparr>calls = [(CallSetSuccess ''uuid-1'', None),
         (CallSetJobMessage (sum_msg\<lparr>ProcessedAt := 100, Status := ''successful''\<rparr>),
          Some ''store down'')],
       backend = mem_init\<lparr>success_idx := [''uuid-1''], store_down := True\<rparr>\<rparr>)"
proof -
  have d: "statusDone mem_env mem_server sum_msg index_down_world =
     (Some ''index down'',
      \<lparr>calls = [(CallSetSuccess ''uuid-1'', Some ''index down'')],
       backend = mem_init\<lparr>index_down := True\<rparr>\<rparr>)"
    by (simp add: run_defs mem_defs mem_defs2)
  have f: "statusFailed mem_env mem_server sum_msg index_down_world =
     (Some ''index down'',
      \<lparr>calls = [(CallSetFailed ''uuid-1'', Some ''index down'')],
       backend = mem_init\<lparr>index_down := True\<rparr>\<rparr>)"
    by (simp add: run_defs mem_defs mem_defs2)
  have nw: "written (mem_init\<lparr>index_down := True\<rparr>) = []"
    by (simp add: mem_init_def)
  have d2: "statusDone mem_env mem_server sum_msg world0 =
     (None,
      \<lparr>calls = [(CallSetSuccess ''uuid-1'', None),
         (CallSetJobMessage (sum_msg\<lparr>ProcessedAt := 100, Status := ''successful''\<rparr>), None)],
       backend = mem_init\<lparr>
         written := [sum_msg\<lparr>ProcessedAt := 100, Status := ''successful''\<rparr>],
         success_idx := [''uuid-1'']\<rparr>\<rparr>)"
    by (simp add: run_defs mem_defs status_defs)
  have f2: "statusFailed mem_env mem_server sum_msg world0 =
     (None,
      \<lparr>calls = [(CallSetFailed ''uuid-1'', None),
         (CallSetJobMessage (sum_msg\<lparr>ProcessedAt := 100, Status := ''failed''\<rparr>), None)],
       backend = mem_init\<lparr>
         written := [sum_msg\<lparr>ProcessedAt := 100, Status := ''failed''\<rparr>],
         failed_idx := [''uuid-1'']\<rparr>\<rparr>)"
    by (simp add: run_defs mem_defs status_defs)
  have d3: "statusDone mem_env mem_server sum_msg store_down_world =
     (Some ''store down'',
      \<lparr>calls = [(CallSetSuccess ''uuid-1'', None),
         (CallSetJobMessage (sum_msg\<lparr>ProcessedAt := 100, Status := ''successful''\<rparr>),
          Some ''store down'')],
       backend = mem_init\<lparr>success_idx := [''uuid-1''], store_down := True\<rparr>\<rparr>)"
    by (simp add: run_defs mem_defs mem_defs2 status_defs)
  from index_written_before_state [where e = mem_env and s = mem_server and t = sum_msg
      and w = index_down_world]
  show ?thesis
    by (intro conjI d f nw d2 f2 d3)
qed

subsection \<open>What the broker receives on a retry\<close>

text \<open>
  Claim C10. In \<open>retryJob\<close> the bytes handed to \<open>broker.Enqueue\<close> are the marshalling of
  the message with only \<open>Retried\<close> incremented, made before \<open>statusRetrying\<close> runs: that
  message has the \<open>Status\<close> and \<open>ProcessedAt\<close> of the message \<open>retryJob\<close> received. The
  status \<open>retrying\<close> and the new timestamp are set on the copy that \<open>statusRetrying\<close>
  writes to the results store, and every broker call of the run carries the bytes
  marshalled before. The final world is given too: the state write applied to the
  store, then the broker's enqueue of those bytes.
\<close>

theorem retryJob_wire_keeps_delivered_status:
  assumes "marshal e (msg\<lparr>Retried := Retried msg + 1\<rparr>) = Inr b"
  shows "(case retryJob e s msg w of (r, w') \<Rightarrow>
           (let m' = msg\<lparr>Retried := Retried msg + 1\<rparr>;
                wr = CallSetJobMessage
                       (m'\<lparr>ProcessedAt := now e (backend w), Status := StatusRetrying\<rparr>)
            in Status m' = Status msg \<and> ProcessedAt m' = ProcessedAt msg
             \<and> ((r \<noteq> None \<and> calls w' = calls w @ [(wr, r)])
                 \<or> calls w' = calls w @ [(wr, None), (CallBrokerEnqueue b (Queue msg), r)])
             \<and> (\<forall>b' q r'. (CallBrokerEnqueue b' q, r') \<in> set (new_calls w w')
                    \<longrightarrow> marshal e m' = Inr b' \<and> q = Queue msg)))
       \<and> (let wr = msg\<lparr>Retried := Retried msg + 1, ProcessedAt := now e (backend w),
                         Status := StatusRetrying\<rparr>
          in case setJobMessage e wr (backend w) of
               (Some x, b1) \<Rightarrow>
                 retryJob e s msg w =
                   (Some x, \<lparr>calls = calls w @ [(CallSetJobMessage wr, Some x)], backend = b1\<rparr>)
             | (None, b1) \<Rightarrow>
                 (case Enqueue (broker s) b (Queue msg) b1 of
                    (r, b2) \<Rightarrow>
                      retryJob e s msg w =
                        (r, \<lparr>calls = calls w @ [(CallSetJobMessage wr, None),
                                 (CallBrokerEnqueue b (Queue msg), r)],
                             backend = b2\<rparr>)))"
proof
  obtain r w' where rj: "retryJob e s msg w = (r, w')"
    by (cases "retryJob e s msg w")
  from retryJob_calls [OF rj assms] assms
  show "case retryJob e s msg w of (r, w') \<Rightarrow>
           (let m' = msg\<lparr>Retried := Retried msg + 1\<rparr>;
                wr = CallSetJobMessage
                       (m'\<lparr>ProcessedAt := now e (backend w), Status := StatusRetrying\<rparr>)
            in Status m' = Status msg \<and> ProcessedAt m' = ProcessedAt msg
             \<and> ((r \<noteq> None \<and> calls w' = calls w @ [(wr, r)])
                 \<or> calls w' = calls w @ [(wr, None), (CallBrokerEnqueue b (Queue msg), r)])
             \<and> (\<forall>b' q r'. (CallBrokerEnqueue b' q, r') \<in> set (new_calls w w')
                    \<longrightarrow> marshal e m' = Inr b' \<and> q = Queue msg))"
    unfolding rj by (auto simp: Let_def)
next
  show "let wr = msg\<lparr>Retried := Retried msg + 1, ProcessedAt := now e (backend w),
                         Status := StatusRetrying\<rparr>
          in case setJobMessage e wr (backend w) of
               (Some x, b1) \<Rightarrow>
                 retryJob e s msg w =
                   (Some x, \<lparr>calls = calls w @ [(CallSetJobMessage wr, Some x)], backend = b1\<rparr>)
             | (None, b1) \<Rightarrow>
                 (case Enqueue (broker s) b (Queue msg) b1 of
                    (r, b2) \<Rightarrow>
                      retryJob e s msg w =
                        (r, \<lparr>calls = calls w @ [(CallSetJobMessage wr, None),
                                 (CallBrokerEnqueue b (Queue msg), r)],
                             backend = b2\<rparr>))"
    using assms
    by (simp add: retryJob_run Let_def split: sum.splits prod.splits option.splits)
qed

theorem retryJob_wire_keeps_delivered_status_witness:
  "marshal wire_env (sum_msg\<lparr>Retried := Retried sum_msg + 1\<rparr>) = Inr [1, 2, 7, 0]
   \<and> Status sum_msg = ''queued''
   \<and> ProcessedAt sum_msg = 7
   \<and> retryJob wire_env mem_server sum_msg world0 =
      (None,
       \<lparr>calls = [(CallSetJobMessage (sum_msg\<lparr>Retried := 1, ProcessedAt := 100,
                     Status := ''retrying''\<rparr>), None),
                 (CallBrokerEnqueue [1, 2, 7, 0] ''tasqueue:tasks'', None)],
        backend = mem_init\<lparr>written := [sum_msg\<lparr>Retried := 1, ProcessedAt := 100,
                     Status := ''retrying''\<rparr>],
          queued := [(''tasqueue:tasks'', [1, 2, 7, 0])]\<rparr>\<rparr>)
   \<and> unmarshal wire_env [1, 2, 7, 0] = Inr (sum_msg\<lparr>Retried := 1\<rparr>)
   \<and> marshal wire_env (sum_msg\<lparr>Retried := 1, ProcessedAt := 100, Status := ''retrying''\<rparr>)
       = Inr [1, 2, 100, 2]
   \<and> unmarshal wire_env [1, 2, 100, 2]
       = Inr (sum_msg\<lparr>Retried := 1, ProcessedAt := 100, Status := ''retrying''\<rparr>)"
proof -
  have h: "marshal wire_env (sum_msg\<lparr>Retried := Retried sum_msg + 1\<rparr>) = Inr [1, 2, 7, 0]"
    by (simp add: mem_defs wire_defs status_defs)
  have st: "Status sum_msg = ''queued''"
    by (simp add: sum_msg_def)
  have pa: "ProcessedAt sum_msg = 7"
    by (simp add: sum_msg_def)
  have ev: "retryJob wire_env mem_server sum_msg world0 =
      (None,
       \<lparr>calls = [(CallSetJobMessage (sum_msg\<lparr>Retried := 1, ProcessedAt := 100,
                     Status := ''retrying''\<rparr>), None),
                 (CallBrokerEnqueue [1, 2, 7, 0] ''tasqueue:tasks'', None)],
        backend = mem_init\<lparr>written := [sum_msg\<lparr>Retried := 1, ProcessedAt := 100,
                     Status := ''retrying''\<rparr>],
          queued := [(''tasqueue:tasks'', [1, 2, 7, 0])]\<rparr>\<rparr>)"
    by (simp add: run_defs mem_defs wire_defs status_defs)
  have un: "unmarshal wire_env [1, 2, 7, 0] = Inr (sum_msg\<lparr>Retried := 1\<rparr>)"
    by (simp add: mem_defs wire_defs status_defs)
  have mr: "marshal wire_env (sum_msg\<lparr>Retried := 1, ProcessedAt := 100, Status := ''retrying''\<rparr>)
       = Inr [1, 2, 100, 2]"
    by (simp add: mem_defs wire_defs status_defs)
  have ur: "unmarshal wire_env [1, 2, 100, 2]
       = Inr (sum_msg\<lparr>Retried := 1, ProcessedAt := 100, Status := ''retrying''\<rparr>)"
    by (simp add: mem_defs wire_defs status_defs)
  from retryJob_wire_keeps_delivered_status [OF h, where s = mem_server and w = world0]
  show ?thesis
    by (intro conjI h st pa ev un mr ur)
qed

subsection \<open>The worker's gate\<close>

text \<open>
  Claim C6. For a piece of work received by the worker: on a decode error, and on a task
  name that is not registered, the world is unchanged (no call is made, nothing is
  written); when the \<open>processing\<close> state write fails, that write is the only call made,
  so the handler is not run; and the handler is run exactly when the work decodes, the
  task name resolves and the \<open>processing\<close> state write returns nil.
\<close>

theorem process_msg_gates_handler:
  "(unmarshal e work = Inl x \<longrightarrow> process_msg e s work w = w)
   \<and> (unmarshal e work = Inr msg \<and> getHandler s (Task (Job msg)) = Inl x
        \<longrightarrow> process_msg e s work w = w)
   \<and> (unmarshal e work = Inr msg \<and> getHandler s (Task (Job msg)) = Inr task
        \<and> fst (statusProcessing e msg w) = Some x
        \<longrightarrow> new_calls w (process_msg e s work w) =
              [(CallSetJobMessage
                  (msg\<lparr>ProcessedAt := now e (backend w), Status := StatusProcessing\<rparr>), Some x)])
   \<and> (list_ex is_handler_call (new_calls w (process_msg e s work w))
        \<longleftrightarrow> (\<exists>m t. unmarshal e work = Inr m \<and> getHandler s (Task (Job m)) = Inr t
                  \<and> fst (statusProcessing e m w) = None))"
proof (intro conjI impI iffI)
  assume "unmarshal e work = Inl x"
  then show "process_msg e s work w = w"
    by (simp add: process_msg_def)
next
  assume "unmarshal e work = Inr msg \<and> getHandler s (Task (Job msg)) = Inl x"
  then show "process_msg e s work w = w"
    by (simp add: process_msg_def)
next
  assume a: "unmarshal e work = Inr msg \<and> getHandler s (Task (Job msg)) = Inr task
        \<and> fst (statusProcessing e msg w) = Some x"
  obtain w1 where sp: "statusProcessing e msg w = (Some x, w1)"
    using a by (cases "statusProcessing e msg w") simp
  have "process_msg e s work w = w1"
    using a sp by (simp add: process_msg_def)
  with statusProcessing_calls [OF sp]
  show "new_calls w (process_msg e s work w) =
          [(CallSetJobMessage
              (msg\<lparr>ProcessedAt := now e (backend w), Status := StatusProcessing\<rparr>), Some x)]"
    by (simp add: new_calls_def)
next
  assume h: "list_ex is_handler_call (new_calls w (process_msg e s work w))"
  show "\<exists>m t. unmarshal e work = Inr m \<and> getHandler s (Task (Job m)) = Inr t
                  \<and> fst (statusProcessing e m w) = None"
  proof (cases "unmarshal e work")
    case (Inl y)
    with h show ?thesis
      by (simp add: process_msg_def new_calls_def)
  next
    case (Inr m)
    show ?thesis
    proof (cases "getHandler s (Task (Job m))")
      case (Inl y)
      with Inr h show ?thesis
        by (simp add: process_msg_def new_calls_def)
    next
      case t: (Inr t)
      obtain r w1 where sp: "statusProcessing e m w = (r, w1)"
        by (cases "statusProcessing e m w")
      show ?thesis
      proof (cases r)
        case (Some y)
        then have "process_msg e s work w = w1"
          using Inr t sp by (simp add: process_msg_def)
        with statusProcessing_calls [OF sp] h show ?thesis
          by (simp add: new_calls_def is_handler_call_def)
      next
        case None
        with Inr t sp show ?thesis
          by simp
      qed
    qed
  qed
next
  assume "\<exists>m t. unmarshal e work = Inr m \<and> getHandler s (Task (Job m)) = Inr t
                  \<and> fst (statusProcessing e m w) = None"
  then show "list_ex is_handler_call (new_calls w (process_msg e s work w))"
    using process_msg_invokes_handler by blast
qed

theorem process_msg_gates_handler_witness:
  "unmarshal mem_env [9] = Inl ''msgpack: unexpected end of input''
   \<and> process_msg mem_env add_server [9] world0 = world0
   \<and> unmarshal mem_env [0, 2] = Inr sum_msg
   \<and> getHandler mem_server (Task (Job sum_msg)) = Inl ''handler add not found''
   \<and> process_msg mem_env mem_server [0, 2] world0 = world0
   \<and> getHandler add_server (Task (Job sum_msg)) = Inr ok_task
   \<and> fst (statusProcessing mem_env sum_msg store_down_world) = Some ''store down''
   \<and> new_calls store_down_world (process_msg mem_env add_server [0, 2] store_down_world) =
        [(CallSetJobMessage (sum_msg\<lparr>ProcessedAt := 100, Status := ''processing''\<rparr>),
          Some ''store down'')]
   \<and> fst (statusProcessing mem_env sum_msg world0) = None
   \<and> list_ex is_handler_call (new_calls world0 (process_msg mem_env add_server [0, 2] world0))"
proof -
  have u1: "unmarshal mem_env [9] = Inl ''msgpack: unexpected end of input''"
    by (simp add: mem_env_def)
  have u2: "unmarshal mem_env [0, 2] = Inr sum_msg"
    by (simp add: mem_env_def sum_msg_def)
  have g1: "getHandler mem_server (Task (Job sum_msg)) = Inl ''handler add not found''"
    by (simp add: getHandler_def mem_server_def sum_msg_def sum_job_def)
  have g2: "getHandler add_server (Task (Job sum_msg)) = Inr ok_task"
    by (simp add: getHandler_def add_server_def RegisterTask_def registerHandler_def Let_def
          mem_server_def sum_msg_def sum_job_def ok_task_def no_callbacks_def)
  have s1: "fst (statusProcessing mem_env sum_msg store_down_world) = Some ''store down''"
    by (simp add: statusProcessing_def invoke_def Let_def mem_env_def store_down_world_def
          mem_init_def)
  have s2: "fst (statusProcessing mem_env sum_msg world0) = None"
    by (simp add: statusProcessing_def invoke_def Let_def mem_env_def world0_def mem_init_def)
  have n1: "now mem_env (backend store_down_world) = 100"
    by (simp add: mem_env_def store_down_world_def mem_init_def)
  note T = process_msg_gates_handler
  have p1: "process_msg mem_env add_server [9] world0 = world0"
    using T [where e = mem_env and work = "[9]"
        and x = "''msgpack: unexpected end of input''" and s = add_server and w = world0] u1
    by blast
  have p2: "process_msg mem_env mem_server [0, 2] world0 = world0"
    using T [where e = mem_env and work = "[0, 2]" and msg = sum_msg
        and x = "''handler add not found''" and s = mem_server and w = world0] u2 g1
    by blast
  have p3: "new_calls store_down_world (process_msg mem_env add_server [0, 2] store_down_world) =
        [(CallSetJobMessage (sum_msg\<lparr>ProcessedAt := now mem_env (backend store_down_world),
            Status := StatusProcessing\<rparr>), Some ''store down'')]"
    using T [where e = mem_env and work = "[0, 2]" and msg = sum_msg and task = ok_task
        and x = "''store down''" and s = add_server and w = store_down_world] u2 g2 s1
    by blast
  have p4: "list_ex is_handler_call
              (new_calls world0 (process_msg mem_env add_server [0, 2] world0))"
    using T [where e = mem_env and work = "[0, 2]" and s = add_server and w = world0] u2 g2 s2
    by blast
  from p3 have p3': "new_calls store_down_world
        (process_msg mem_env add_server [0, 2] store_down_world) =
        [(CallSetJobMessage (sum_msg\<lparr>ProcessedAt := 100, Status := ''processing''\<rparr>),
          Some ''store down'')]"
    by (simp only: n1 StatusProcessing_def)
  show ?thesis
    by (intro conjI u1 p1 u2 g1 p2 g2 s1 p3' s2 p4)
qed

end
